theory Spec2Isabelle
  imports Main "HOL-Library.Word"
begin

section \<open>The Python values the descriptor code handles\<close>

text \<open>
  The C++ code manipulates Python objects through pybind11 handles. The objects that
  occur in \<^verbatim>\<open>treespec.cpp\<close> and \<^verbatim>\<open>unflatten.cpp\<close> are modelled by a
  datatype: \<^verbatim>\<open>None\<close>, integers, strings, tuples, lists, insertion-ordered
  dictionaries (association lists of entries), class objects and instances of
  namedtuple classes. A class object carries its \<^verbatim>\<open>__module__\<close>, its
  \<^verbatim>\<open>__name__\<close> and, when it is a namedtuple class, its \<^verbatim>\<open>_fields\<close>; two class
  objects are the same object when the three agree. An instance of a namedtuple class
  has one item for each field. A string is the list of its code points, which the model
  takes below 256.
\<close>

type_synonym ssize_t = "64 word"

datatype pyexception = TypeError | IndexError | AttributeError | SystemError | Raised string

datatype pytype =
  PyType (type_module: string) (type_name: string) (type_fields: "string list option")

datatype pyobject =
    PyNone
  | PyInt int
  | PyStr string
  | PyTuple "pyobject list"
  | PyList "pyobject list"
  | PyDict "(pyobject \<times> pyobject) list"
  | PyTypeObj pytype
  | PyInstance pytype "pyobject list"

text \<open>
  Every \<^verbatim>\<open>throw\<close> of the two source files is a constructor; the comments give the
  C++ exception class and message. \<open>cast_error\<close>, \<open>type_error\<close> and
  \<open>error_already_set\<close> are the exceptions pybind11 raises itself (a failed conversion to a
  C++ value, an object that is not of the class its wrapper requires, a Python exception
  in flight). \<open>UndefinedBehaviour\<close> marks the places where the C++ program has no
  defined result (a null handle dereferenced, an iterator moved outside its vector).
\<close>

datatype error =
    TooFewElementsNode \<comment> \<open>logic_error: Too few elements for PyTreeSpec node.\<close>
  | TooFewLeaves ssize_t ssize_t \<comment> \<open>invalid_argument: Too few leaves for PyTreeSpec; expected, got\<close>
  | TooManyLeaves ssize_t \<comment> \<open>invalid_argument: Too many leaves for PyTreeSpec; expected\<close>
  | NotSingleton \<comment> \<open>logic_error: PyTreeSpec traversal did not yield a singleton.\<close>
  | UnreachableCode \<comment> \<open>logic_error: Unreachable code.\<close>
  | ArityMismatch \<comment> \<open>logic_error: Node arity did not match.\<close>
  | MakeNodeLeaf \<comment> \<open>logic_error: MakeNode not implemented for leaves.\<close>
  | TooFewElementsContainer \<comment> \<open>logic_error: Too few elements for container.\<close>
  | KeysMismatch \<comment> \<open>logic_error: Number of keys and entries does not match.\<close>
  | FieldsMismatch \<comment> \<open>logic_error: Number of fields and entries does not match.\<close>
  | AuxDataMismatch \<comment> \<open>logic_error: Number of auxiliary data mismatch.\<close>
  | MalformedPickle \<comment> \<open>runtime_error: Malformed pickled PyTreeSpec.\<close>
  | UnknownCustomType string \<comment> \<open>runtime_error: Unknown custom type in pickled PyTreeSpec: repr\<close>
  | cast_error
  | type_error
  | error_already_set pyexception
  | UndefinedBehaviour

datatype exception_class = logic_error | invalid_argument | runtime_error | pybind11_error | no_exception

fun class_of :: "error \<Rightarrow> exception_class" where
  "class_of TooFewElementsNode = logic_error"
| "class_of (TooFewLeaves e g) = invalid_argument"
| "class_of (TooManyLeaves e) = invalid_argument"
| "class_of NotSingleton = logic_error"
| "class_of UnreachableCode = logic_error"
| "class_of ArityMismatch = logic_error"
| "class_of MakeNodeLeaf = logic_error"
| "class_of TooFewElementsContainer = logic_error"
| "class_of KeysMismatch = logic_error"
| "class_of FieldsMismatch = logic_error"
| "class_of AuxDataMismatch = logic_error"
| "class_of MalformedPickle = runtime_error"
| "class_of (UnknownCustomType r) = runtime_error"
| "class_of cast_error = pybind11_error"
| "class_of type_error = pybind11_error"
| "class_of (error_already_set x) = pybind11_error"
| "class_of UndefinedBehaviour = no_exception"

subsection \<open>Operations of the Python runtime\<close>

fun digits :: "nat \<Rightarrow> string" where
  "digits n = (if n < 10 then [''0123456789'' ! n]
     else digits (n div 10) @ [''0123456789'' ! (n mod 10)])"

definition show_int :: "int \<Rightarrow> string" where
  "show_int i = (if i < 0 then CHR ''-'' # digits (nat (- i)) else digits (nat i))"

text \<open>\<^verbatim>\<open>absl::StrJoin(first, last, sep)\<close> over a range of strings.\<close>

fun StrJoin :: "string list \<Rightarrow> string \<Rightarrow> string" where
  "StrJoin [] sep = []"
| "StrJoin [x] sep = x"
| "StrJoin (x # y # ys) sep = x @ sep @ StrJoin (y # ys) sep"

text \<open>
  A C++ \<^verbatim>\<open>std::string\<close> made from a Python string holds the UTF-8 bytes of its code
  points.
\<close>

definition utf8_char :: "char \<Rightarrow> string" where
  "utf8_char c =
     (let n = of_char c :: nat
      in if n < 128 then [c] else [char_of (192 + n div 64), char_of (128 + n mod 64)])"

definition utf8 :: "string \<Rightarrow> string" where
  "utf8 s = concat (map utf8_char s)"

text \<open>
  \<^verbatim>\<open>repr\<close> of a string: it is quoted with single quotes, or with double quotes when
  it holds a single quote and no double quote; the quote character and the backslash
  are escaped with a backslash, tab, newline and carriage return by their letters, and
  every other code point that is not printable by its two hexadecimal digits.
\<close>

definition hex_digit :: "nat \<Rightarrow> char" where
  "hex_digit n = ''0123456789abcdef'' ! n"

definition repr_char :: "char \<Rightarrow> char \<Rightarrow> string" where
  "repr_char quote c =
     (let n = of_char c :: nat
      in if c = quote \<or> c = CHR 0x5C then [CHR 0x5C, c]
         else if n = 9 then [CHR 0x5C, CHR ''t'']
         else if n = 10 then [CHR 0x5C, CHR ''n'']
         else if n = 13 then [CHR 0x5C, CHR ''r'']
         else if n < 32 \<or> n = 127 \<or> (128 \<le> n \<and> n \<le> 160) \<or> n = 173
           then [CHR 0x5C, CHR ''x'', hex_digit (n div 16), hex_digit (n mod 16)]
         else utf8_char c)"

definition repr_str :: "string \<Rightarrow> string" where
  "repr_str s =
     (let quote = (if CHR 0x27 \<in> set s \<and> CHR 0x22 \<notin> set s then CHR 0x22 else CHR 0x27)
      in [quote] @ concat (map (repr_char quote) s) @ [quote])"

text \<open>The name a class is printed by: its name for a builtin class, else module and name.\<close>

definition type_qualified :: "pytype \<Rightarrow> string" where
  "type_qualified t =
     (if type_module t = ''builtins'' then type_name t
      else type_module t @ ''.'' @ type_name t)"

text \<open>
  \<^verbatim>\<open>repr\<close> and \<^verbatim>\<open>str\<close> of the modelled values, as the \<^verbatim>\<open>std::string\<close> the
  C++ code formats them into. An instance of a namedtuple class is printed with its
  field names.
\<close>

fun py_repr :: "pyobject \<Rightarrow> string" where
  "py_repr PyNone = ''None''"
| "py_repr (PyInt i) = show_int i"
| "py_repr (PyStr s) = repr_str s"
| "py_repr (PyTuple xs) =
     (if length xs = 1 then ''('' @ StrJoin (map py_repr xs) '', '' @ '',)''
      else ''('' @ StrJoin (map py_repr xs) '', '' @ '')'')"
| "py_repr (PyList xs) = ''['' @ StrJoin (map py_repr xs) '', '' @ '']''"
| "py_repr (PyDict kvs) =
     ''{'' @ StrJoin (map (\<lambda>(k, v). py_repr k @ '': '' @ py_repr v) kvs) '', '' @ ''}''"
| "py_repr (PyTypeObj t) = ''<class '' @ [CHR 0x27] @ utf8 (type_qualified t) @ [CHR 0x27] @ ''>''"
| "py_repr (PyInstance t xs) =
     utf8 (type_name t) @ ''(''
     @ StrJoin (map2 (\<lambda>field r. utf8 field @ ''='' @ r)
                  (case type_fields t of Some field_names \<Rightarrow> field_names | None \<Rightarrow> [])
                  (map py_repr xs)) '', ''
     @ '')''"

definition py_str :: "pyobject \<Rightarrow> string" where
  "py_str x = (case x of PyStr s \<Rightarrow> utf8 s | _ \<Rightarrow> py_repr x)"

text \<open>
  Python's \<^verbatim>\<open>==\<close> on the modelled values (\<^verbatim>\<open>!=\<close> is its negation on them).
  Tuples and instances of namedtuple classes are compared as tuples, item by item,
  whatever their classes; lists item by item; dictionaries are equal when they have as
  many entries and every entry of the first has an entry of the second with an equal key
  and an equal value, in whatever order; class objects are equal when they are the same
  object; values of different sorts are unequal.
\<close>

fun py_eq :: "pyobject \<Rightarrow> pyobject \<Rightarrow> bool" where
  "py_eq PyNone PyNone = True"
| "py_eq (PyInt i) (PyInt j) = (i = j)"
| "py_eq (PyStr s) (PyStr t) = (s = t)"
| "py_eq (PyTuple xs) (PyTuple ys) = list_all2 py_eq xs ys"
| "py_eq (PyTuple xs) (PyInstance u ys) = list_all2 py_eq xs ys"
| "py_eq (PyInstance t xs) (PyTuple ys) = list_all2 py_eq xs ys"
| "py_eq (PyInstance t xs) (PyInstance u ys) = list_all2 py_eq xs ys"
| "py_eq (PyList xs) (PyList ys) = list_all2 py_eq xs ys"
| "py_eq (PyDict a) (PyDict b) =
     (length a = length b
      \<and> list_all (\<lambda>(k, v). list_ex (\<lambda>(k', v'). py_eq k k' \<and> py_eq v v') b) a)"
| "py_eq (PyTypeObj t) (PyTypeObj u) = (t = u)"
| "py_eq x y = False"

text \<open>
  \<^verbatim>\<open>py::len\<close> of a handle that may be null: \<^verbatim>\<open>PyObject_Size\<close> answers a null
  argument with a \<^verbatim>\<open>SystemError\<close> and an unsized object with a \<^verbatim>\<open>TypeError\<close>.
\<close>

definition py_len :: "pyobject option \<Rightarrow> error + nat" where
  "py_len h = (case h of
      None \<Rightarrow> Inl (error_already_set SystemError)
    | Some (PyStr s) \<Rightarrow> Inr (length s)
    | Some (PyTuple xs) \<Rightarrow> Inr (length xs)
    | Some (PyList xs) \<Rightarrow> Inr (length xs)
    | Some (PyDict kvs) \<Rightarrow> Inr (length kvs)
    | Some (PyInstance t xs) \<Rightarrow> Inr (length xs)
    | Some _ \<Rightarrow> Inl (error_already_set TypeError))"

text \<open>The items a \<^verbatim>\<open>for\<close> loop over a (non-null) handle visits.\<close>

definition py_iter :: "pyobject \<Rightarrow> error + pyobject list" where
  "py_iter x = (case x of
      PyStr s \<Rightarrow> Inr (map (\<lambda>c. PyStr [c]) s)
    | PyTuple xs \<Rightarrow> Inr xs
    | PyList xs \<Rightarrow> Inr xs
    | PyDict kvs \<Rightarrow> Inr (map fst kvs)
    | PyInstance t xs \<Rightarrow> Inr xs
    | _ \<Rightarrow> Inl (error_already_set TypeError))"

text \<open>The items of a tuple or of an instance of a tuple subclass (\<^verbatim>\<open>PyTuple_Check\<close>).\<close>

definition py_tuple_items :: "pyobject \<Rightarrow> pyobject list option" where
  "py_tuple_items x = (case x of
      PyTuple xs \<Rightarrow> Some xs
    | PyInstance t xs \<Rightarrow> Some xs
    | _ \<Rightarrow> None)"

fun hashable :: "pyobject \<Rightarrow> bool" where
  "hashable (PyList xs) = False"
| "hashable (PyDict kvs) = False"
| "hashable (PyTuple xs) = list_all hashable xs"
| "hashable (PyInstance t xs) = list_all hashable xs"
| "hashable x = True"

text \<open>
  \<^verbatim>\<open>d[k] = v\<close> and \<^verbatim>\<open>d.get(k)\<close> on an insertion-ordered dictionary with hashable
  keys. A key is found when a key of the dictionary is equal to it (equal keys have equal
  hashes). An existing key keeps its position and its key object and takes the new
  value, a new key is appended.
\<close>

fun dict_setitem :: "(pyobject \<times> pyobject) list \<Rightarrow> pyobject \<Rightarrow> pyobject \<Rightarrow> (pyobject \<times> pyobject) list" where
  "dict_setitem [] k v = [(k, v)]"
| "dict_setitem ((k', v') # d) k v =
     (if py_eq k' k then (k', v) # d else (k', v') # dict_setitem d k v)"

fun dict_getitem :: "(pyobject \<times> pyobject) list \<Rightarrow> pyobject \<Rightarrow> pyobject option" where
  "dict_getitem [] k = None"
| "dict_getitem ((k', v') # d) k = (if py_eq k' k then Some v' else dict_getitem d k)"

text \<open>
  Calling an object with positional arguments. A namedtuple class accepts exactly as many
  arguments as it has fields and returns the instance; the model has no other callable,
  every other call raises \<^verbatim>\<open>TypeError\<close>.
\<close>

definition py_call :: "pyobject \<Rightarrow> pyobject list \<Rightarrow> error + pyobject" where
  "py_call f args = (case f of
      PyTypeObj t \<Rightarrow>
        (case type_fields t of
           Some field_names \<Rightarrow>
             if length args = length field_names then Inr (PyInstance t args)
             else Inl (error_already_set TypeError)
         | None \<Rightarrow> Inl (error_already_set TypeError))
    | _ \<Rightarrow> Inl (error_already_set TypeError))"

section \<open>The data model: kinds, registrations, nodes, the descriptor\<close>

text \<open>
  \<^verbatim>\<open>enum class PyTreeKind\<close>. \<open>Invalid k\<close> is an enumeration value that is none of
  the enumerators: the deserializer can produce one by converting an integer.
\<close>

datatype PyTreeKind = Leaf | NoneKind | Tuple | NamedTuple | List | Dict | Custom | Invalid ssize_t

text \<open>
  Modelled from the spec: \<^verbatim>\<open>include/treespec.h\<close>, which declares the enumeration,
  is not among the sources, so the integer values of the enumerators and the underlying
  type are not known. The enumerators are numbered from 0 in the order in which the data
  model lists the kinds (leaf, none, tuple, namedtuple, dict, list, custom), and a
  conversion from \<^verbatim>\<open>ssize_t\<close> keeps the value; the theorems depend only on the
  seven values being distinct.
\<close>

definition static_cast_PyTreeKind :: "ssize_t \<Rightarrow> PyTreeKind" where
  "static_cast_PyTreeKind k =
     (if k = 0 then Leaf else if k = 1 then NoneKind else if k = 2 then Tuple
      else if k = 3 then NamedTuple else if k = 4 then Dict else if k = 5 then List
      else if k = 6 then Custom else Invalid k)"

fun static_cast_ssize_t :: "PyTreeKind \<Rightarrow> ssize_t" where
  "static_cast_ssize_t Leaf = 0"
| "static_cast_ssize_t NoneKind = 1"
| "static_cast_ssize_t Tuple = 2"
| "static_cast_ssize_t NamedTuple = 3"
| "static_cast_ssize_t Dict = 4"
| "static_cast_ssize_t List = 5"
| "static_cast_ssize_t Custom = 6"
| "static_cast_ssize_t (Invalid k) = k"

text \<open>
  Modelled from the spec: \<^verbatim>\<open>PyTreeTypeRegistry::Registration\<close> is declared in a
  header that is not among the sources. Of a registration the functions embedded here
  use the registered class (\<open>type\<close>) and the recompose function (\<open>from_iterable\<close>, a
  Python callable: it returns a value or raises). The registry holds one registration per
  class, so a pointer to a registration is modelled by the registration itself.
\<close>

record Registration =
  type :: pytype
  from_iterable :: "pyobject \<Rightarrow> pyobject \<Rightarrow> pyexception + pyobject"

text \<open>
  Modelled from the spec: the registry (\<^verbatim>\<open>PyTreeTypeRegistry::Lookup\<close>) is not among
  the sources. It is a table from class objects to registrations, looked up by identity;
  an object that is not a registered class is not found.
\<close>

type_synonym PyTreeTypeRegistry = "pytype \<rightharpoonup> Registration"

definition Lookup :: "PyTreeTypeRegistry \<Rightarrow> pyobject \<Rightarrow> Registration option" where
  "Lookup registry h = (case h of PyTypeObj t \<Rightarrow> registry t | _ \<Rightarrow> None)"

text \<open>
  Modelled from the spec: the class objects \<^verbatim>\<open>py::OrderedDict\<close>,
  \<^verbatim>\<open>py::DefaultDict\<close> and \<^verbatim>\<open>py::Deque\<close> that \<^verbatim>\<open>ToString\<close> compares a
  registered class with are declared in the missing header; they are the classes of
  Python's \<^verbatim>\<open>collections\<close> module.
\<close>

definition OrderedDict :: pytype where
  "OrderedDict = PyType ''collections'' ''OrderedDict'' None"

definition DefaultDict :: pytype where
  "DefaultDict = PyType ''collections'' ''defaultdict'' None"

definition Deque :: pytype where
  "Deque = PyType ''collections'' ''deque'' None"

text \<open>\<^verbatim>\<open>PyTreeSpec::Node\<close>: a null \<^verbatim>\<open>node_data\<close> handle and a null \<^verbatim>\<open>custom\<close>
  pointer are \<open>None\<close>.\<close>

record Node =
  kind :: PyTreeKind
  arity :: ssize_t
  node_data :: "pyobject option"
  custom :: "Registration option"
  num_leaves :: ssize_t
  num_nodes :: ssize_t

record PyTreeSpec =
  traversal :: "Node list"

section \<open>treespec.cpp\<close>

definition PyTreeSpec_num_leaves :: "PyTreeSpec \<Rightarrow> ssize_t" where
  "PyTreeSpec_num_leaves self =
     (if traversal self = [] then 0 else num_leaves (last (traversal self)))"

definition PyTreeSpec_num_nodes :: "PyTreeSpec \<Rightarrow> ssize_t" where
  "PyTreeSpec_num_nodes self = of_nat (length (traversal self))"

subsection \<open>operator==\<close>

text \<open>
  The loop walks both traversals in step (they have the same length when it starts) and
  returns at the first pair of nodes that differ. The node data are compared with
  Python's \<^verbatim>\<open>!=\<close>; where that comparison is reached, both handles are non-null.
\<close>

fun operator_eq_loop :: "(Node \<times> Node) list \<Rightarrow> bool" where
  "operator_eq_loop [] = True"
| "operator_eq_loop ((a, b) # rest) =
     (if kind a \<noteq> kind b \<or> arity a \<noteq> arity b
         \<or> (node_data a = None) \<noteq> (node_data b = None)
         \<or> custom a \<noteq> custom b then False
      else if (case (node_data a, node_data b) of
                 (Some x, Some y) \<Rightarrow> \<not> py_eq x y
               | _ \<Rightarrow> False) then False
      else operator_eq_loop rest)"

definition operator_eq :: "PyTreeSpec \<Rightarrow> PyTreeSpec \<Rightarrow> bool" where
  "operator_eq self other =
     (if length (traversal self) \<noteq> length (traversal other) then False
      else operator_eq_loop (zip (traversal self) (traversal other)))"

definition operator_ne :: "PyTreeSpec \<Rightarrow> PyTreeSpec \<Rightarrow> bool" where
  "operator_ne self other = (\<not> operator_eq self other)"

subsection \<open>MakeNode\<close>

text \<open>
  The loop of the \<^verbatim>\<open>Dict\<close> case: \<^verbatim>\<open>dict[keys[i]] = children[i]\<close> for every child.
  Reading a key beyond the key list raises \<^verbatim>\<open>IndexError\<close>, storing under an
  unhashable key raises \<^verbatim>\<open>TypeError\<close>.
\<close>

fun MakeNode_dict :: "pyobject list \<Rightarrow> pyobject list \<Rightarrow> (pyobject \<times> pyobject) list \<Rightarrow> error + pyobject" where
  "MakeNode_dict keys [] dict = Inr (PyDict dict)"
| "MakeNode_dict [] (c # children) dict = Inl (error_already_set IndexError)"
| "MakeNode_dict (k # keys) (c # children) dict =
     (if hashable k then MakeNode_dict keys children (dict_setitem dict k c)
      else Inl (error_already_set TypeError))"

text \<open>
  The loops that move the children into a fresh tuple or list of \<open>arity\<close> slots copy all
  of them, since the number of children is the arity once the first check has passed.
\<close>

definition MakeNode :: "Node \<Rightarrow> pyobject list \<Rightarrow> error + pyobject" where
  "MakeNode node children =
     (if int (length children) \<noteq> sint (arity node) then Inl ArityMismatch
      else case kind node of
        Leaf \<Rightarrow> Inl MakeNodeLeaf
      | NoneKind \<Rightarrow> Inr PyNone
      | Tuple \<Rightarrow> Inr (PyTuple children)
      | NamedTuple \<Rightarrow>
          (case node_data node of
             None \<Rightarrow> Inl UndefinedBehaviour
           | Some t \<Rightarrow> py_call t children)
      | List \<Rightarrow> Inr (PyList children)
      | Dict \<Rightarrow>
          (case node_data node of
             None \<Rightarrow> if children = [] then Inr (PyDict []) else Inl UndefinedBehaviour
           | Some (PyList keys) \<Rightarrow> MakeNode_dict keys children []
           | Some _ \<Rightarrow>
               if children = [] then Inr (PyDict [])
               else Inl (error_already_set SystemError))
      | Custom \<Rightarrow>
          (case custom node of
             None \<Rightarrow> Inl UndefinedBehaviour
           | Some r \<Rightarrow>
               (case node_data node of
                  None \<Rightarrow> Inl cast_error
                | Some d \<Rightarrow>
                    (case from_iterable r d (PyTuple children) of
                       Inl x \<Rightarrow> Inl (error_already_set x)
                     | Inr out \<Rightarrow> Inr out)))
      | Invalid k \<Rightarrow> Inl UnreachableCode)"

section \<open>unflatten.cpp\<close>

text \<open>
  The variables of the loop of \<^verbatim>\<open>UnflattenImpl\<close>: the agenda (its back is the end of
  the list), the leaves the iterator \<^verbatim>\<open>it\<close> has not passed yet, and the counter.
\<close>

record unflatten_state =
  agenda :: "pyobject list"
  it :: "pyobject list"
  leaf_count :: ssize_t

definition take_leaf :: "PyTreeSpec \<Rightarrow> unflatten_state \<Rightarrow> error + unflatten_state" where
  "take_leaf self st =
     (case it st of
        [] \<Rightarrow> Inl (TooFewLeaves (PyTreeSpec_num_leaves self) (leaf_count st))
      | x # rest \<Rightarrow>
          Inr (st\<lparr>agenda := agenda st @ [x], it := rest, leaf_count := leaf_count st + 1\<rparr>))"

definition build_node :: "Node \<Rightarrow> unflatten_state \<Rightarrow> error + unflatten_state" where
  "build_node node st =
     (let size = length (agenda st);
          span = (if 0 < sint (arity node)
                  then drop (size - nat (sint (arity node))) (agenda st) else [])
      in case MakeNode node span of
           Inl e \<Rightarrow> Inl e
         | Inr out \<Rightarrow>
             Inr (st\<lparr>agenda := take (size - nat (sint (arity node))) (agenda st) @ [out]\<rparr>))"

definition UnflattenImpl_body :: "PyTreeSpec \<Rightarrow> Node \<Rightarrow> unflatten_state \<Rightarrow> error + unflatten_state" where
  "UnflattenImpl_body self node st =
     (if int (length (agenda st)) < sint (arity node) then Inl TooFewElementsNode
      else case kind node of
        Leaf \<Rightarrow> take_leaf self st
      | NoneKind \<Rightarrow> take_leaf self st
      | Tuple \<Rightarrow> build_node node st
      | NamedTuple \<Rightarrow> build_node node st
      | List \<Rightarrow> build_node node st
      | Dict \<Rightarrow> build_node node st
      | Custom \<Rightarrow> build_node node st
      | Invalid k \<Rightarrow> Inl UnreachableCode)"

fun UnflattenImpl_loop :: "PyTreeSpec \<Rightarrow> Node list \<Rightarrow> unflatten_state \<Rightarrow> error + unflatten_state" where
  "UnflattenImpl_loop self [] st = Inr st"
| "UnflattenImpl_loop self (node # nodes) st =
     (case UnflattenImpl_body self node st of
        Inl e \<Rightarrow> Inl e
      | Inr st' \<Rightarrow> UnflattenImpl_loop self nodes st')"

definition UnflattenImpl :: "PyTreeSpec \<Rightarrow> pyobject list \<Rightarrow> error + pyobject" where
  "UnflattenImpl self leaves =
     (case UnflattenImpl_loop self (traversal self) \<lparr>agenda = [], it = leaves, leaf_count = 0\<rparr> of
        Inl e \<Rightarrow> Inl e
      | Inr st \<Rightarrow>
          if it st \<noteq> [] then Inl (TooManyLeaves (PyTreeSpec_num_leaves self))
          else if length (agenda st) \<noteq> 1 then Inl NotSingleton
          else Inr (last (agenda st)))"

definition Unflatten :: "PyTreeSpec \<Rightarrow> pyobject list \<Rightarrow> error + pyobject" where
  "Unflatten self leaves = UnflattenImpl self leaves"

section \<open>treespec.cpp, continued\<close>

subsection \<open>ToString\<close>

text \<open>
  The loops that append one formatted entry per key (or field), reading the children
  through \<^verbatim>\<open>child_iter\<close>. Reading a child when the iterator has reached the end of
  the agenda is undefined.
\<close>

fun ToString_entries :: "('k \<Rightarrow> string \<Rightarrow> string) \<Rightarrow> 'k list \<Rightarrow> string list \<Rightarrow> string \<Rightarrow> string \<Rightarrow> error + string" where
  "ToString_entries fmt [] child_iter separator representation = Inr representation"
| "ToString_entries fmt (key # keys) [] separator representation = Inl UndefinedBehaviour"
| "ToString_entries fmt (key # keys) (child # child_iter) separator representation =
     ToString_entries fmt keys child_iter '', '' (representation @ separator @ fmt key child)"

definition ToString_Dict :: "Node \<Rightarrow> string list \<Rightarrow> error + string" where
  "ToString_Dict node args =
     (case py_len (node_data node) of
        Inl e \<Rightarrow> Inl e
      | Inr n \<Rightarrow>
          if int n \<noteq> sint (arity node) then Inl KeysMismatch
          else (case node_data node of
            None \<Rightarrow> Inl UndefinedBehaviour
          | Some d \<Rightarrow>
              (case py_iter d of
                 Inl e \<Rightarrow> Inl e
               | Inr keys \<Rightarrow>
                   (case ToString_entries (\<lambda>key child. py_repr key @ '': '' @ child)
                           keys args '''' ''{'' of
                      Inl e \<Rightarrow> Inl e
                    | Inr representation \<Rightarrow> Inr (representation @ ''}'')))))"

definition ToString_fields :: "Node \<Rightarrow> pytype \<Rightarrow> string list \<Rightarrow> string list \<Rightarrow> error + string" where
  "ToString_fields node t field_names args =
     (if int (length field_names) \<noteq> sint (arity node) then Inl FieldsMismatch
      else (case ToString_entries (\<lambda>field child. utf8 field @ ''='' @ child)
                  field_names args '''' (utf8 (type_name t) @ ''('') of
             Inl e \<Rightarrow> Inl e
           | Inr representation \<Rightarrow> Inr (representation @ '')'')))"

text \<open>
  The \<^verbatim>\<open>NamedTuple\<close> case reads \<^verbatim>\<open>_fields\<close> and then \<^verbatim>\<open>__name__\<close> of the
  node data: a class without \<^verbatim>\<open>_fields\<close> and an object that is no class raise
  \<^verbatim>\<open>AttributeError\<close> (an instance of a namedtuple class has \<^verbatim>\<open>_fields\<close> but no
  \<^verbatim>\<open>__name__\<close>).
\<close>

definition ToString_NamedTuple :: "Node \<Rightarrow> string list \<Rightarrow> error + string" where
  "ToString_NamedTuple node args =
     (case node_data node of
        None \<Rightarrow> Inl UndefinedBehaviour
      | Some (PyTypeObj t) \<Rightarrow>
          (case type_fields t of
             None \<Rightarrow> Inl (error_already_set AttributeError)
           | Some field_names \<Rightarrow> ToString_fields node t field_names args)
      | Some (PyInstance t xs) \<Rightarrow>
          (case type_fields t of
             None \<Rightarrow> Inl (error_already_set AttributeError)
           | Some field_names \<Rightarrow>
               if int (length field_names) \<noteq> sint (arity node) then Inl FieldsMismatch
               else Inl (error_already_set AttributeError))
      | Some _ \<Rightarrow> Inl (error_already_set AttributeError))"

definition ToString_OrderedDict :: "Node \<Rightarrow> string \<Rightarrow> string list \<Rightarrow> error + string" where
  "ToString_OrderedDict node name args =
     (case node_data node of
        None \<Rightarrow> Inl UndefinedBehaviour
      | Some d \<Rightarrow>
          (case py_iter d of
             Inl e \<Rightarrow> Inl e
           | Inr keys \<Rightarrow>
               (case ToString_entries (\<lambda>key child. ''('' @ py_repr key @ '', '' @ child @ '')'')
                       keys args '''' (name @ ''(['') of
                  Inl e \<Rightarrow> Inl e
                | Inr representation \<Rightarrow> Inr (representation @ ''])''))))"

definition ToString_DefaultDict :: "Node \<Rightarrow> string \<Rightarrow> string list \<Rightarrow> error + string" where
  "ToString_DefaultDict node name args =
     (case py_len (node_data node) of
        Inl e \<Rightarrow> Inl e
      | Inr n \<Rightarrow>
          if n \<noteq> 2 then Inl AuxDataMismatch
          else (case node_data node of
            None \<Rightarrow> Inl UndefinedBehaviour
          | Some d \<Rightarrow>
              (case py_tuple_items d of
                 None \<Rightarrow> Inl (error_already_set SystemError)
               | Some aux_data \<Rightarrow>
                   (let factory = aux_data ! 0; keys = aux_data ! 1
                    in (case py_len (Some keys) of
                         Inl e \<Rightarrow> Inl e
                       | Inr m \<Rightarrow>
                           if int m \<noteq> sint (arity node) then Inl KeysMismatch
                           else (case py_iter keys of
                             Inl e \<Rightarrow> Inl e
                           | Inr ks \<Rightarrow>
                               (case ToString_entries
                                       (\<lambda>key child. py_repr key @ '': '' @ child) ks args ''''
                                       (name @ ''('' @ py_repr factory @ '', {'') of
                                  Inl e \<Rightarrow> Inl e
                                | Inr representation \<Rightarrow> Inr (representation @ ''})''))))))))"

definition ToString_Custom :: "Node \<Rightarrow> string list \<Rightarrow> string \<Rightarrow> error + string" where
  "ToString_Custom node args children =
     (case custom node of
        None \<Rightarrow> Inl UndefinedBehaviour
      | Some r \<Rightarrow>
          (let name = utf8 (type_name (type r))
           in if type r = OrderedDict then ToString_OrderedDict node name args
              else if type r = DefaultDict then ToString_DefaultDict node name args
              else if type r = Deque then Inr (name @ ''(['' @ children @ ''])'')
              else Inr (''CustomTreeNode('' @ name
                     @ (case node_data node of
                          None \<Rightarrow> []
                        | Some d \<Rightarrow> ''['' @ py_str d @ '']'')
                     @ '', ['' @ children @ ''])'')))"

text \<open>
  The two statements after the \<^verbatim>\<open>switch\<close>: the last \<open>arity\<close> fragments are
  erased from the agenda and the representation is pushed.
\<close>

definition ToString_push :: "string list \<Rightarrow> nat \<Rightarrow> error + string \<Rightarrow> error + string list" where
  "ToString_push agenda' n result =
     (case result of
        Inl e \<Rightarrow> Inl e
      | Inr representation \<Rightarrow> Inr (take (length agenda' - n) agenda' @ [representation]))"

text \<open>
  One turn of the loop. With a negative arity the range
  \<^verbatim>\<open>agenda.end() - node.arity, agenda.end()\<close> starts behind the end of the agenda, which
  is undefined. A \<^verbatim>\<open>Leaf\<close> pushes its placeholder and continues, whatever its arity;
  every other node replaces its last \<open>arity\<close> fragments (\<open>args\<close>, joined in
  \<open>children\<close>) by its representation.
\<close>

definition ToString_body :: "Node \<Rightarrow> string list \<Rightarrow> error + string list" where
  "ToString_body node agenda' =
     (if int (length agenda') < sint (arity node) then Inl TooFewElementsContainer
      else if sint (arity node) < 0 then Inl UndefinedBehaviour
      else let n = nat (sint (arity node));
               args = drop (length agenda' - n) agenda';
               children = StrJoin args '', ''
           in case kind node of
                Leaf \<Rightarrow> Inr (agenda' @ [''*''])
              | NoneKind \<Rightarrow> ToString_push agenda' n (Inr ''None'')
              | Tuple \<Rightarrow>
                  ToString_push agenda' n
                    (Inr (''('' @ (if arity node = 1 then children @ '','' else children) @ '')''))
              | List \<Rightarrow> ToString_push agenda' n (Inr (''['' @ children @ '']''))
              | Dict \<Rightarrow> ToString_push agenda' n (ToString_Dict node args)
              | NamedTuple \<Rightarrow> ToString_push agenda' n (ToString_NamedTuple node args)
              | Custom \<Rightarrow> ToString_push agenda' n (ToString_Custom node args children)
              | Invalid k \<Rightarrow> Inl UnreachableCode)"

fun ToString_loop :: "Node list \<Rightarrow> string list \<Rightarrow> error + string list" where
  "ToString_loop [] agenda' = Inr agenda'"
| "ToString_loop (node # nodes) agenda' =
     (case ToString_body node agenda' of
        Inl e \<Rightarrow> Inl e
      | Inr next_agenda \<Rightarrow> ToString_loop nodes next_agenda)"

definition ToString :: "PyTreeSpec \<Rightarrow> error + string" where
  "ToString self =
     (case ToString_loop (traversal self) [] of
        Inl e \<Rightarrow> Inl e
      | Inr agenda' \<Rightarrow>
          if length agenda' \<noteq> 1 then Inl NotSingleton
          else Inr (''PyTreeSpec('' @ last agenda' @ '')''))"

subsection \<open>ToPicklable and FromPicklable\<close>

definition ToPicklable_node :: "Node \<Rightarrow> pyobject" where
  "ToPicklable_node node =
     PyTuple [PyInt (sint (static_cast_ssize_t (kind node))),
              PyInt (sint (arity node)),
              (case node_data node of Some d \<Rightarrow> d | None \<Rightarrow> PyNone),
              (case custom node of Some r \<Rightarrow> PyTypeObj (type r) | None \<Rightarrow> PyNone),
              PyInt (sint (num_leaves node)),
              PyInt (sint (num_nodes node))]"

definition ToPicklable :: "PyTreeSpec \<Rightarrow> pyobject" where
  "ToPicklable self = PyList (map ToPicklable_node (traversal self))"

text \<open>
  \<^verbatim>\<open>h.cast<ssize_t>()\<close>: a Python integer that fits 64 bits, or \<open>cast_error\<close>.
  \<^verbatim>\<open>h.cast<py::list>()\<close> and \<^verbatim>\<open>h.cast<py::tuple>()\<close> construct the wrapper from
  the object: a list (a tuple) is taken as it is, any other iterable is converted to a
  new list (tuple) of its items, and an object that is not iterable raises Python's
  \<^verbatim>\<open>TypeError\<close>. \<^verbatim>\<open>h.cast<py::type>()\<close> does not convert: an object that is no
  class raises \<open>type_error\<close>.
\<close>

definition cast_py_list :: "pyobject \<Rightarrow> error + pyobject list" where
  "cast_py_list h = py_iter h"

definition cast_py_tuple :: "pyobject \<Rightarrow> error + pyobject list" where
  "cast_py_tuple h = py_iter h"

definition cast_ssize_t :: "pyobject \<Rightarrow> error + ssize_t" where
  "cast_ssize_t h = (case h of
      PyInt i \<Rightarrow>
        if - (2 ^ 63) \<le> i \<and> i < 2 ^ 63 then Inr (word_of_int i) else Inl cast_error
    | _ \<Rightarrow> Inl cast_error)"

text \<open>The \<^verbatim>\<open>switch\<close> that reads the third field, the node data, by kind.\<close>

definition FromPicklableImpl_node_data :: "PyTreeKind \<Rightarrow> pyobject \<Rightarrow> error + pyobject option" where
  "FromPicklableImpl_node_data k h =
     (case k of
        NamedTuple \<Rightarrow> (case h of PyTypeObj t \<Rightarrow> Inr (Some h) | _ \<Rightarrow> Inl type_error)
      | Dict \<Rightarrow>
          (case cast_py_list h of
             Inl e \<Rightarrow> Inl e
           | Inr keys \<Rightarrow> Inr (Some (PyList keys)))
      | Custom \<Rightarrow> Inr (Some h)
      | _ \<Rightarrow> if h \<noteq> PyNone then Inl MalformedPickle else Inr None)"

text \<open>The fourth field, the registered class of a \<^verbatim>\<open>Custom\<close> node.\<close>

definition FromPicklableImpl_custom :: "PyTreeTypeRegistry \<Rightarrow> PyTreeKind \<Rightarrow> pyobject \<Rightarrow> error + Registration option" where
  "FromPicklableImpl_custom registry k h =
     (if k = Custom then
        (case (if h = PyNone then None else Lookup registry h) of
           None \<Rightarrow> Inl (UnknownCustomType (py_repr h))
         | Some r \<Rightarrow> Inr (Some r))
      else if h \<noteq> PyNone then Inl MalformedPickle
      else Inr None)"

definition FromPicklableImpl_item :: "PyTreeTypeRegistry \<Rightarrow> pyobject \<Rightarrow> error + Node" where
  "FromPicklableImpl_item registry item =
     (case cast_py_tuple item of
        Inl e \<Rightarrow> Inl e
      | Inr t \<Rightarrow>
          if length t \<noteq> 6 then Inl MalformedPickle
          else (case cast_ssize_t (t ! 0) of Inl e \<Rightarrow> Inl e | Inr tag \<Rightarrow>
            (case cast_ssize_t (t ! 1) of Inl e \<Rightarrow> Inl e | Inr a \<Rightarrow>
            (case FromPicklableImpl_node_data (static_cast_PyTreeKind tag) (t ! 2) of
               Inl e \<Rightarrow> Inl e | Inr d \<Rightarrow>
            (case FromPicklableImpl_custom registry (static_cast_PyTreeKind tag) (t ! 3) of
               Inl e \<Rightarrow> Inl e | Inr c \<Rightarrow>
            (case cast_ssize_t (t ! 4) of Inl e \<Rightarrow> Inl e | Inr nl \<Rightarrow>
            (case cast_ssize_t (t ! 5) of Inl e \<Rightarrow> Inl e | Inr nn \<Rightarrow>
               Inr \<lparr>kind = static_cast_PyTreeKind tag, arity = a, node_data = d,
                    custom = c, num_leaves = nl, num_nodes = nn\<rparr>)))))))"

fun FromPicklableImpl_loop :: "PyTreeTypeRegistry \<Rightarrow> pyobject list \<Rightarrow> Node list \<Rightarrow> error + Node list" where
  "FromPicklableImpl_loop registry [] nodes = Inr nodes"
| "FromPicklableImpl_loop registry (item # items) nodes =
     (case FromPicklableImpl_item registry item of
        Inl e \<Rightarrow> Inl e
      | Inr node \<Rightarrow> FromPicklableImpl_loop registry items (nodes @ [node]))"

definition FromPicklableImpl :: "PyTreeTypeRegistry \<Rightarrow> pyobject \<Rightarrow> error + PyTreeSpec" where
  "FromPicklableImpl registry picklable =
     (case cast_py_list picklable of
        Inl e \<Rightarrow> Inl e
      | Inr items \<Rightarrow>
          (case FromPicklableImpl_loop registry items [] of
             Inl e \<Rightarrow> Inl e
           | Inr nodes \<Rightarrow> Inr \<lparr>traversal = nodes\<rparr>))"

definition FromPicklable :: "PyTreeTypeRegistry \<Rightarrow> pyobject \<Rightarrow> error + PyTreeSpec" where
  "FromPicklable registry picklable = FromPicklableImpl registry picklable"

section \<open>Notions of the specification\<close>

text \<open>
  The nodes on which the reconstruction loop takes an item from the leaf sequence: the
  two case labels of the first branch of its \<^verbatim>\<open>switch\<close>.
\<close>

definition consumes_leaf :: "Node \<Rightarrow> bool" where
  "consumes_leaf node \<longleftrightarrow> kind node = Leaf \<or> kind node = NoneKind"

text \<open>
  Node-wise agreement as the specification of structural equality words it: the same
  kind and arity, node data present in both or in neither, node data that compare equal
  (Python's \<^verbatim>\<open>==\<close>) when both have it, and the same registration.
\<close>

definition spec_nodes_match :: "Node \<Rightarrow> Node \<Rightarrow> bool" where
  "spec_nodes_match a b \<longleftrightarrow>
     kind a = kind b \<and> arity a = arity b
     \<and> ((node_data a = None) = (node_data b = None))
     \<and> (case (node_data a, node_data b) of (Some x, Some y) \<Rightarrow> py_eq x y | _ \<Rightarrow> True)
     \<and> custom a = custom b"

definition erase_counts :: "Node \<Rightarrow> Node" where
  "erase_counts n = n\<lparr>num_leaves := 0, num_nodes := 0\<rparr>"

text \<open>The largest arity among the nodes of a traversal (0 for the empty one).\<close>

definition max_arity :: "Node list \<Rightarrow> int" where
  "max_arity nodes = foldr (\<lambda>node m. max (sint (arity node)) m) nodes 0"

text \<open>
  Post-order consistency as the data model words it: the traversal is run as a stack
  machine that counts items; a \<^verbatim>\<open>Leaf\<close> or \<^verbatim>\<open>None\<close> node pushes one item, every
  other node pops as many items as its arity and pushes one; the run must never find
  fewer items than it pops and must end with one item.
\<close>

fun spec_stack_machine :: "Node list \<Rightarrow> int \<Rightarrow> int option" where
  "spec_stack_machine [] depth = Some depth"
| "spec_stack_machine (node # nodes) depth =
     (if kind node = Leaf \<or> kind node = NoneKind then spec_stack_machine nodes (depth + 1)
      else if depth < sint (arity node) then None
      else spec_stack_machine nodes (depth - sint (arity node) + 1))"

definition spec_postorder_consistent :: "Node list \<Rightarrow> bool" where
  "spec_postorder_consistent nodes \<longleftrightarrow> spec_stack_machine nodes 0 = Some 1"

text \<open>
  The keys of a key list that are equal (Python's \<^verbatim>\<open>==\<close>) to no earlier key of the
  list nor to a key of \<open>seen\<close>, in their order.
\<close>

fun first_occurrences :: "pyobject list \<Rightarrow> pyobject list \<Rightarrow> pyobject list" where
  "first_occurrences seen [] = []"
| "first_occurrences seen (k # keys) =
     (if list_ex (\<lambda>s. py_eq s k) seen then first_occurrences seen keys
      else k # first_occurrences (seen @ [k]) keys)"

text \<open>
  The plain tuple a hashable value compares as: an instance of a namedtuple class is
  replaced by the tuple of its items, at every depth.
\<close>

fun key_form :: "pyobject \<Rightarrow> pyobject" where
  "key_form (PyTuple xs) = PyTuple (map key_form xs)"
| "key_form (PyInstance t xs) = PyTuple (map key_form xs)"
| "key_form x = x"

text \<open>
  What the data model asks of the node data and the registration of a node: a
  \<^verbatim>\<open>NamedTuple\<close> node holds a class, a \<^verbatim>\<open>Dict\<close> node a list of keys, a
  \<^verbatim>\<open>Custom\<close> node some payload and a registration that the registry holds under its
  class; the other kinds hold neither node data nor a registration; and the kind is one of
  the enumerators.
\<close>

definition spec_valid_node :: "PyTreeTypeRegistry \<Rightarrow> Node \<Rightarrow> bool" where
  "spec_valid_node registry node =
     (case kind node of
        NamedTuple \<Rightarrow>
          (case node_data node of Some (PyTypeObj t) \<Rightarrow> custom node = None | _ \<Rightarrow> False)
      | Dict \<Rightarrow>
          (case node_data node of Some (PyList keys) \<Rightarrow> custom node = None | _ \<Rightarrow> False)
      | Custom \<Rightarrow>
          node_data node \<noteq> None
          \<and> (case custom node of Some r \<Rightarrow> registry (type r) = Some r | None \<Rightarrow> False)
      | Invalid k \<Rightarrow> False
      | _ \<Rightarrow> node_data node = None \<and> custom node = None)"

subsection \<open>Descriptors used as examples\<close>

definition leaf_node :: Node where
  "leaf_node = \<lparr>kind = Leaf, arity = 0, node_data = None, custom = None,
                 num_leaves = 1, num_nodes = 1\<rparr>"

definition none_node :: Node where
  "none_node = \<lparr>kind = NoneKind, arity = 0, node_data = None, custom = None,
                 num_leaves = 0, num_nodes = 1\<rparr>"

definition tuple_node :: "ssize_t \<Rightarrow> Node" where
  "tuple_node n = \<lparr>kind = Tuple, arity = n, node_data = None, custom = None,
                 num_leaves = n, num_nodes = n + 1\<rparr>"

definition nested_spec :: PyTreeSpec where
  "nested_spec = \<lparr>traversal =
     [leaf_node, leaf_node, leaf_node, tuple_node 2,
      \<lparr>kind = Tuple, arity = 2, node_data = None, custom = None,
        num_leaves = 3, num_nodes = 5\<rparr>]\<rparr>"

definition leaves3_spec :: PyTreeSpec where
  "leaves3_spec = \<lparr>traversal = [leaf_node, leaf_node, leaf_node, tuple_node 3]\<rparr>"

text \<open>
  A namedtuple class \<^verbatim>\<open>Box\<close> with the one field \<^verbatim>\<open>item\<close>, and a \<^verbatim>\<open>Dict\<close> node
  whose key list is \<^verbatim>\<open>[(1,), Box(1), 'b']\<close>: its first two keys are equal.
\<close>

definition Box :: pytype where
  "Box = PyType ''__main__'' ''Box'' (Some [''item''])"

definition dup_dict_node :: Node where
  "dup_dict_node = \<lparr>kind = Dict, arity = 3,
                     node_data = Some (PyList [PyTuple [PyInt 1], PyInstance Box [PyInt 1],
                                               PyStr ''b'']),
                     custom = None, num_leaves = 3, num_nodes = 4\<rparr>"

text \<open>A \<^verbatim>\<open>Dict\<close> node with the given key list.\<close>

definition dict_node :: "pyobject list \<Rightarrow> Node" where
  "dict_node keys = \<lparr>kind = Dict, arity = of_nat (length keys), node_data = Some (PyList keys),
                      custom = None, num_leaves = of_nat (length keys),
                      num_nodes = of_nat (length keys) + 1\<rparr>"

definition list_node :: "ssize_t \<Rightarrow> Node" where
  "list_node n = \<lparr>kind = List, arity = n, node_data = None, custom = None,
                 num_leaves = n, num_nodes = n + 1\<rparr>"

text \<open>
  The descriptor of the structure \<^verbatim>\<open>{'a': [1, 2], 'b': None}\<close> as the data model
  lays it out in post-order: two leaves, the list of arity 2, the \<^verbatim>\<open>None\<close> node, the
  dictionary of arity 2 with its keys in order.
\<close>

definition example_spec :: PyTreeSpec where
  "example_spec = \<lparr>traversal =
     [leaf_node, leaf_node, list_node 2, none_node,
      \<lparr>kind = Dict, arity = 2, node_data = Some (PyList [PyStr ''a'', PyStr ''b'']),
        custom = None, num_leaves = 2, num_nodes = 5\<rparr>]\<rparr>"

text \<open>A registry with one registered class, and a descriptor that uses it.\<close>

definition pair_registration :: Registration where
  "pair_registration =
     \<lparr>type = PyType ''__main__'' ''Pair'' None,
      from_iterable = (\<lambda>aux children. case children of
                          PyTuple xs \<Rightarrow> Inr (PyInstance (PyType ''__main__'' ''Pair'' None) xs)
                        | _ \<Rightarrow> Inl TypeError)\<rparr>"

definition pair_registry :: PyTreeTypeRegistry where
  "pair_registry = [PyType ''__main__'' ''Pair'' None \<mapsto> pair_registration]"

definition mixed_spec :: PyTreeSpec where
  "mixed_spec = \<lparr>traversal =
     [leaf_node, leaf_node,
      \<lparr>kind = Custom, arity = 2, node_data = Some PyNone, custom = Some pair_registration,
        num_leaves = 2, num_nodes = 3\<rparr>,
      leaf_node,
      \<lparr>kind = NamedTuple, arity = 1,
        node_data = Some (PyTypeObj (PyType ''__main__'' ''Box'' (Some [''item'']))),
        custom = None,
        num_leaves = 1, num_nodes = 2\<rparr>,
      \<lparr>kind = Dict, arity = 2, node_data = Some (PyList [PyStr ''p'', PyStr ''q'']),
        custom = None, num_leaves = 3, num_nodes = 6\<rparr>]\<rparr>"

text \<open>A descriptor whose second leaf has arity 1.\<close>

definition unchecked_arity_spec :: PyTreeSpec where
  "unchecked_arity_spec = \<lparr>traversal = [leaf_node, leaf_node\<lparr>arity := 1\<rparr>, tuple_node 2]\<rparr>"

section \<open>Evaluation\<close>

text \<open>The equations that evaluate the loops on a given descriptor.\<close>

lemmas node_eval = leaf_node_def none_node_def tuple_node_def

lemmas unflatten_eval = UnflattenImpl_def UnflattenImpl_body_def take_leaf_def build_node_def
  MakeNode_def PyTreeSpec_num_leaves_def

lemmas repr_eval = repr_str_def repr_char_def utf8_def utf8_char_def type_qualified_def Let_def

lemmas tostring_eval = ToString_def ToString_body_def ToString_push_def
  ToString_Dict_def py_len_def py_iter_def repr_eval

lemmas pickle_eval = FromPicklable_def FromPicklableImpl_def FromPicklableImpl_item_def
  FromPicklableImpl_node_data_def FromPicklableImpl_custom_def cast_ssize_t_def
  cast_py_list_def cast_py_tuple_def py_iter_def static_cast_PyTreeKind_def Lookup_def

lemma cast_py_list_PyList [simp]: "cast_py_list (PyList xs) = Inr xs"
  by (simp add: cast_py_list_def py_iter_def)

lemma cast_py_tuple_PyTuple [simp]: "cast_py_tuple (PyTuple xs) = Inr xs"
  by (simp add: cast_py_tuple_def py_iter_def)

section \<open>The reconstruction loop\<close>

lemma UnflattenImpl_loop_append:
  "UnflattenImpl_loop self (xs @ ys) st =
     (case UnflattenImpl_loop self xs st of
        Inl e \<Rightarrow> Inl e
      | Inr st' \<Rightarrow> UnflattenImpl_loop self ys st')"
  by (induction xs arbitrary: st) (auto split: sum.splits)

lemma build_node_it:
  "build_node node st = Inr st' \<Longrightarrow> it st' = it st \<and> leaf_count st' = leaf_count st"
  by (auto simp: build_node_def Let_def split: sum.splits)

lemma body_consumes_leaf:
  "consumes_leaf node \<Longrightarrow> \<not> int (length (agenda st)) < sint (arity node) \<Longrightarrow>
   UnflattenImpl_body self node st = take_leaf self st"
  by (auto simp: UnflattenImpl_body_def consumes_leaf_def)

lemma body_not_consumes_leaf:
  "\<not> consumes_leaf node \<Longrightarrow> UnflattenImpl_body self node st = Inr st' \<Longrightarrow>
   build_node node st = Inr st'"
  by (cases "kind node") (auto simp: UnflattenImpl_body_def consumes_leaf_def split: if_splits)

lemma body_it_leaf:
  assumes "consumes_leaf node" and ok: "UnflattenImpl_body self node st = Inr st'"
  shows "\<exists>x. it st = x # it st' \<and> agenda st' = agenda st @ [x]"
proof -
  from ok have "\<not> int (length (agenda st)) < sint (arity node)"
    by (auto simp: UnflattenImpl_body_def split: if_splits)
  with assms have "take_leaf self st = Inr st'"
    by (simp add: body_consumes_leaf)
  then show ?thesis
    by (auto simp: take_leaf_def split: list.splits)
qed

lemma body_it_other:
  "\<not> consumes_leaf node \<Longrightarrow> UnflattenImpl_body self node st = Inr st' \<Longrightarrow> it st' = it st"
  using body_not_consumes_leaf build_node_it by blast

lemma loop_it:
  "UnflattenImpl_loop self nodes st = Inr st' \<Longrightarrow>
   it st' = drop (length (filter consumes_leaf nodes)) (it st)
   \<and> length (filter consumes_leaf nodes) \<le> length (it st)"
proof (induction nodes arbitrary: st)
  case Nil
  then show ?case by simp
next
  case (Cons node nodes)
  then obtain st1 where b: "UnflattenImpl_body self node st = Inr st1"
    and l: "UnflattenImpl_loop self nodes st1 = Inr st'"
    by (auto split: sum.splits)
  note ih = Cons.IH [OF l]
  show ?case
  proof (cases "consumes_leaf node")
    case True
    from body_it_leaf [OF True b] obtain x where x: "it st = x # it st1"
      by blast
    with ih True show ?thesis by simp
  next
    case False
    with body_it_other [OF False b] ih show ?thesis by simp
  qed
qed

section \<open>Equality of Python values and the comparison loop\<close>

lemma py_eq_refl: "py_eq x x"
proof (induction x)
  case (PyDict kvs)
  have "list_all (\<lambda>(k, v). list_ex (\<lambda>(k', v'). py_eq k k' \<and> py_eq v v') kvs) kvs"
    unfolding list_all_iff list_ex_iff
  proof (intro ballI)
    fix e assume e: "e \<in> set kvs"
    obtain k v where kv: "e = (k, v)" by (cases e)
    from PyDict e kv have "py_eq k k" and "py_eq v v"
      by (auto simp: snds.simps fsts.simps)
    with e kv show "case e of (k, v) \<Rightarrow> \<exists>x\<in>set kvs. case x of (k', v') \<Rightarrow> py_eq k k' \<and> py_eq v v'"
      by auto
  qed
  then show ?case by simp
qed (simp_all add: list_all2_same)

lemma operator_eq_loop_iff:
  "length xs = length ys \<Longrightarrow>
   operator_eq_loop (zip xs ys) = list_all2 spec_nodes_match xs ys"
  by (induction xs ys rule: list_induct2)
     (auto simp: spec_nodes_match_def split: option.splits)

lemma operator_eq_iff_list_all2:
  "operator_eq a b = list_all2 spec_nodes_match (traversal a) (traversal b)"
  by (auto simp: operator_eq_def operator_eq_loop_iff dest: list_all2_lengthD)

lemma spec_nodes_match_refl: "spec_nodes_match x x"
  by (simp add: spec_nodes_match_def py_eq_refl split: option.splits)

lemma operator_eq_refl: "operator_eq s s"
  by (simp add: operator_eq_iff_list_all2 list_all2_same spec_nodes_match_refl)

section \<open>Leaves taken by reconstruction\<close>

text \<open>
  C1 (as amended). In reconstruction a \<^verbatim>\<open>None\<close> node is handled by the same branch
  as a \<^verbatim>\<open>Leaf\<close>: when its arity check passes and the leaf sequence has a next item,
  the node takes that item and pushes it. Every other node leaves the leaf iterator where
  it is. So the leaves a completed walk has taken are as many as the \<^verbatim>\<open>Leaf\<close> and
  \<^verbatim>\<open>None\<close> nodes together, and a reconstruction that succeeds was given exactly that
  many leaves.
\<close>

theorem Unflatten_leaf_consumption:
  "(consumes_leaf node \<and> sint (arity node) \<le> int (length (agenda st)) \<and> it st = x # rest \<longrightarrow>
      UnflattenImpl_body self node st =
        Inr (st\<lparr>agenda := agenda st @ [x], it := rest, leaf_count := leaf_count st + 1\<rparr>))
   \<and> (\<not> consumes_leaf node \<and> UnflattenImpl_body self node st = Inr st' \<longrightarrow> it st' = it st)
   \<and> (UnflattenImpl_loop self nodes st = Inr st' \<longrightarrow>
        it st' = drop (length (filter consumes_leaf nodes)) (it st)
        \<and> length (it st) = length (filter consumes_leaf nodes) + length (it st'))
   \<and> (UnflattenImpl self leaves = Inr out \<longrightarrow>
        length leaves = length (filter consumes_leaf (traversal self)))"
proof (intro conjI impI)
  assume "consumes_leaf node \<and> sint (arity node) \<le> int (length (agenda st)) \<and> it st = x # rest"
  then show "UnflattenImpl_body self node st =
        Inr (st\<lparr>agenda := agenda st @ [x], it := rest, leaf_count := leaf_count st + 1\<rparr>)"
    by (simp add: body_consumes_leaf take_leaf_def)
next
  assume "\<not> consumes_leaf node \<and> UnflattenImpl_body self node st = Inr st'"
  then show "it st' = it st"
    using body_it_other by blast
next
  assume l: "UnflattenImpl_loop self nodes st = Inr st'"
  from loop_it [OF l] show "length (it st) = length (filter consumes_leaf nodes) + length (it st')"
    by simp
  from loop_it [OF l] show "it st' = drop (length (filter consumes_leaf nodes)) (it st)"
    by simp
next
  assume "UnflattenImpl self leaves = Inr out"
  then obtain st1 where
    l: "UnflattenImpl_loop self (traversal self) \<lparr>agenda = [], it = leaves, leaf_count = 0\<rparr> = Inr st1"
    and e: "it st1 = []"
    by (auto simp: UnflattenImpl_def split: sum.splits if_splits)
  from loop_it [OF l] e show "length leaves = length (filter consumes_leaf (traversal self))"
    by simp
qed

theorem Unflatten_leaf_consumption_witness:
  "UnflattenImpl \<lparr>traversal = [leaf_node, none_node, tuple_node 2]\<rparr> [PyInt 1, PyInt 2]
     = Inr (PyTuple [PyInt 1, PyInt 2])
   \<and> length (filter consumes_leaf [leaf_node, none_node, tuple_node 2]) = 2"
  using Unflatten_leaf_consumption [of leaf_node "\<lparr>agenda = [], it = [PyInt 1, PyInt 2], leaf_count = 0\<rparr>"
      "PyInt 1" "[PyInt 2]" "\<lparr>traversal = [leaf_node, none_node, tuple_node 2]\<rparr>"
      "\<lparr>agenda = [PyInt 1], it = [PyInt 2], leaf_count = 1\<rparr>" "[]"
      "[PyInt 1, PyInt 2]" "PyTuple [PyInt 1, PyInt 2]"]
  by (simp add: unflatten_eval node_eval consumes_leaf_def)

text \<open>
  The claim as first stated fails on a descriptor that is a single \<^verbatim>\<open>None\<close> node:
  given one leaf, reconstruction returns that leaf, not the none value; given no leaf, it
  fails for want of one; and the descriptor has no \<^verbatim>\<open>Leaf\<close> node.
\<close>

theorem Unflatten_none_counterexample:
  "UnflattenImpl \<lparr>traversal = [none_node]\<rparr> [PyInt 7] = Inr (PyInt 7)
   \<and> PyInt 7 \<noteq> PyNone
   \<and> UnflattenImpl \<lparr>traversal = [none_node]\<rparr> [] = Inl (TooFewLeaves 0 0)
   \<and> length (filter (\<lambda>n. kind n = Leaf) [none_node]) = 0"
  by (simp add: unflatten_eval node_eval)

section \<open>What deserialization checks\<close>

lemma FromPicklableImpl_loop_iff:
  "FromPicklableImpl_loop registry items acc = Inr nodes \<longleftrightarrow>
     (\<exists>ns. nodes = acc @ ns
        \<and> list_all2 (\<lambda>item node. FromPicklableImpl_item registry item = Inr node) items ns)"
proof (induction items arbitrary: acc)
  case Nil
  then show ?case by auto
next
  case (Cons item items)
  show ?case
  proof (cases "FromPicklableImpl_item registry item")
    case (Inl e)
    then show ?thesis by (auto simp: list_all2_Cons1)
  next
    case (Inr node)
    then show ?thesis
      by (auto simp: Cons.IH list_all2_Cons1)
  qed
qed

lemma FromPicklableImpl_iff:
  "FromPicklableImpl registry picklable = Inr s \<longleftrightarrow>
     (\<exists>items. cast_py_list picklable = Inr items
        \<and> list_all2 (\<lambda>item node. FromPicklableImpl_item registry item = Inr node)
             items (traversal s))"
proof (cases "cast_py_list picklable")
  case (Inl e)
  then show ?thesis by (simp add: FromPicklableImpl_def)
next
  case (Inr items)
  have "FromPicklableImpl registry picklable = Inr s \<longleftrightarrow>
      FromPicklableImpl_loop registry items [] = Inr (traversal s)"
    using Inr by (cases s) (auto simp: FromPicklableImpl_def split: sum.splits)
  with Inr show ?thesis by (simp add: FromPicklableImpl_loop_iff)
qed

text \<open>
  C2 (as amended). Deserialization checks each record of the encoding on its own, in
  sequence order: an encoding is accepted exactly when it can be read as a sequence of
  records each of which is accepted by itself, and the descriptor returned holds the
  nodes of the records in their order. No invariant that spans nodes is checked again,
  neither that there is a node nor post-order consistency: two accepted encodings joined
  end to end are accepted, and so is the empty one.
\<close>

theorem FromPicklableImpl_per_record:
  "(FromPicklableImpl registry picklable = Inr spec \<longleftrightarrow>
      (\<exists>items. cast_py_list picklable = Inr items
         \<and> list_all2 (\<lambda>item node. FromPicklableImpl_item registry item = Inr node)
              items (traversal spec)))
   \<and> (FromPicklableImpl registry (PyList xs) = Inr a
        \<and> FromPicklableImpl registry (PyList ys) = Inr b \<longrightarrow>
      FromPicklableImpl registry (PyList (xs @ ys))
        = Inr \<lparr>traversal = traversal a @ traversal b\<rparr>)
   \<and> FromPicklableImpl registry (PyList []) = Inr \<lparr>traversal = []\<rparr>"
proof (intro conjI impI)
  show "FromPicklableImpl registry picklable = Inr spec \<longleftrightarrow>
      (\<exists>items. cast_py_list picklable = Inr items
         \<and> list_all2 (\<lambda>item node. FromPicklableImpl_item registry item = Inr node)
              items (traversal spec))"
    by (rule FromPicklableImpl_iff)
next
  assume "FromPicklableImpl registry (PyList xs) = Inr a
        \<and> FromPicklableImpl registry (PyList ys) = Inr b"
  then have "list_all2 (\<lambda>item node. FromPicklableImpl_item registry item = Inr node)
        xs (traversal a)"
    and "list_all2 (\<lambda>item node. FromPicklableImpl_item registry item = Inr node)
        ys (traversal b)"
    by (simp_all add: FromPicklableImpl_iff cast_py_list_def py_iter_def)
  then have "list_all2 (\<lambda>item node. FromPicklableImpl_item registry item = Inr node)
        (xs @ ys) (traversal a @ traversal b)"
    by (rule list_all2_appendI)
  then show "FromPicklableImpl registry (PyList (xs @ ys))
        = Inr \<lparr>traversal = traversal a @ traversal b\<rparr>"
    by (simp add: FromPicklableImpl_iff cast_py_list_def py_iter_def)
next
  show "FromPicklableImpl registry (PyList []) = Inr \<lparr>traversal = []\<rparr>"
    by (simp add: FromPicklableImpl_def cast_py_list_def py_iter_def)
qed

theorem FromPicklableImpl_per_record_witness:
  "FromPicklableImpl Map.empty
      (PyList [PyTuple [PyInt 0, PyInt 0, PyNone, PyNone, PyInt 1, PyInt 1]])
     = Inr \<lparr>traversal = [leaf_node]\<rparr>
   \<and> FromPicklableImpl Map.empty
      (PyList [PyTuple [PyInt 1, PyInt 0, PyNone, PyNone, PyInt 0, PyInt 1]])
     = Inr \<lparr>traversal = [none_node]\<rparr>
   \<and> FromPicklableImpl Map.empty
      (PyList [PyTuple [PyInt 0, PyInt 0, PyNone, PyNone, PyInt 1, PyInt 1],
               PyTuple [PyInt 1, PyInt 0, PyNone, PyNone, PyInt 0, PyInt 1]])
     = Inr \<lparr>traversal = [leaf_node, none_node]\<rparr>"
  using FromPicklableImpl_per_record [of Map.empty
      "PyList [PyTuple [PyInt 0, PyInt 0, PyNone, PyNone, PyInt 1, PyInt 1]]"
      "\<lparr>traversal = [leaf_node]\<rparr>"
      "[PyTuple [PyInt 0, PyInt 0, PyNone, PyNone, PyInt 1, PyInt 1]]"
      "\<lparr>traversal = [leaf_node]\<rparr>"
      "[PyTuple [PyInt 1, PyInt 0, PyNone, PyNone, PyInt 0, PyInt 1]]"
      "\<lparr>traversal = [none_node]\<rparr>"]
  by (simp add: pickle_eval node_eval)

text \<open>
  The claim as first stated fails on the encoding of a lone tuple node of arity 2, which
  is accepted although the stack machine finds no item to pop; on the encoding of two
  leaves, which is accepted although it leaves two items; and on the empty list of
  records, which is accepted although it leaves no item.
\<close>

theorem FromPicklableImpl_unvalidated_counterexample:
  "FromPicklableImpl Map.empty
      (PyList [PyTuple [PyInt 2, PyInt 2, PyNone, PyNone, PyInt 2, PyInt 3]])
     = Inr \<lparr>traversal = [tuple_node 2]\<rparr>
   \<and> \<not> spec_postorder_consistent [tuple_node 2]
   \<and> FromPicklableImpl Map.empty
      (PyList [PyTuple [PyInt 0, PyInt 0, PyNone, PyNone, PyInt 1, PyInt 1],
               PyTuple [PyInt 0, PyInt 0, PyNone, PyNone, PyInt 1, PyInt 1]])
     = Inr \<lparr>traversal = [leaf_node, leaf_node]\<rparr>
   \<and> \<not> spec_postorder_consistent [leaf_node, leaf_node]
   \<and> FromPicklableImpl Map.empty (PyList []) = Inr \<lparr>traversal = []\<rparr>
   \<and> \<not> spec_postorder_consistent []"
  by (simp add: pickle_eval node_eval spec_postorder_consistent_def)

section \<open>The serialization round trip\<close>

lemma cast_ssize_t_sint: "cast_ssize_t (PyInt (sint (w :: ssize_t))) = Inr w"
proof -
  have "- (2 ^ 63) \<le> sint w" using sint_ge [of w] by simp
  moreover have "sint w < 2 ^ 63" using sint_lt [of w] by simp
  ultimately show ?thesis by (simp add: cast_ssize_t_def)
qed

lemma static_cast_roundtrip:
  "(\<forall>t. k \<noteq> Invalid t) \<Longrightarrow> static_cast_PyTreeKind (static_cast_ssize_t k) = k"
  by (cases k) (simp_all add: static_cast_PyTreeKind_def)

lemma spec_valid_node_not_Invalid: "spec_valid_node registry node \<Longrightarrow> kind node \<noteq> Invalid t"
  by (auto simp: spec_valid_node_def)

lemma FromPicklableImpl_item_roundtrip:
  assumes "spec_valid_node registry node"
  shows "FromPicklableImpl_item registry (ToPicklable_node node) = Inr node"
proof -
  from assms have k: "static_cast_PyTreeKind (static_cast_ssize_t (kind node)) = kind node"
    by (intro static_cast_roundtrip) (auto simp: spec_valid_node_def)
  from assms have d: "FromPicklableImpl_node_data (kind node)
      (case node_data node of Some d \<Rightarrow> d | None \<Rightarrow> PyNone) = Inr (node_data node)"
    by (cases "kind node")
       (auto simp: spec_valid_node_def FromPicklableImpl_node_data_def
             split: option.splits pyobject.splits)
  from assms have c: "FromPicklableImpl_custom registry (kind node)
      (case custom node of Some r \<Rightarrow> PyTypeObj (type r) | None \<Rightarrow> PyNone) = Inr (custom node)"
    by (cases "kind node")
       (auto simp: spec_valid_node_def FromPicklableImpl_custom_def Lookup_def
             split: option.splits pyobject.splits)
  show ?thesis
    by (cases node)
       (use k d c in \<open>simp add: FromPicklableImpl_item_def ToPicklable_node_def
          cast_ssize_t_sint\<close>)
qed

lemma FromPicklableImpl_loop_roundtrip:
  "list_all (spec_valid_node registry) nodes \<Longrightarrow>
   FromPicklableImpl_loop registry (map ToPicklable_node nodes) acc = Inr (acc @ nodes)"
  by (induction nodes arbitrary: acc) (simp_all add: FromPicklableImpl_item_roundtrip)

text \<open>
  C3. Let every node of a descriptor hold the node data and the registration the data
  model asks for, with the registrations of its \<^verbatim>\<open>Custom\<close> nodes held by the registry
  that is used to decode. Then decoding the encoding of the descriptor succeeds, and the
  result is equal to the descriptor under \<^verbatim>\<open>operator==\<close>.
\<close>

theorem pickle_roundtrip:
  assumes "list_all (spec_valid_node registry) (traversal s)"
  shows "\<exists>s'. FromPicklable registry (ToPicklable s) = Inr s' \<and> operator_eq s' s"
proof -
  from FromPicklableImpl_loop_roundtrip [OF assms, of "[]"]
  have "FromPicklable registry (ToPicklable s) = Inr s"
    by (simp add: FromPicklable_def FromPicklableImpl_def ToPicklable_def)
  with operator_eq_refl show ?thesis by blast
qed

theorem pickle_roundtrip_witness:
  "list_all (spec_valid_node pair_registry) (traversal mixed_spec)
   \<and> (\<exists>s'. FromPicklable pair_registry (ToPicklable mixed_spec) = Inr s' \<and> operator_eq s' mixed_spec)"
proof -
  have v: "list_all (spec_valid_node pair_registry) (traversal mixed_spec)"
    by (simp add: mixed_spec_def spec_valid_node_def pair_registry_def pair_registration_def
        leaf_node_def)
  from pickle_roundtrip [OF v] v show ?thesis by blast
qed

section \<open>The size of the agenda\<close>

lemma build_node_agenda:
  "build_node node st = Inr st' \<Longrightarrow> length (agenda st') \<le> length (agenda st) + 1"
  by (auto simp: build_node_def Let_def split: sum.splits)

lemma body_agenda:
  assumes "UnflattenImpl_body self node st = Inr st'"
  shows "length (agenda st') \<le> length (agenda st) + 1"
proof (cases "consumes_leaf node")
  case True
  from body_it_leaf [OF True assms] show ?thesis by auto
next
  case False
  from body_not_consumes_leaf [OF False assms] show ?thesis by (rule build_node_agenda)
qed

lemma loop_agenda:
  "UnflattenImpl_loop self nodes st = Inr st' \<Longrightarrow>
   length (agenda st') \<le> length (agenda st) + length nodes"
proof (induction nodes arbitrary: st)
  case Nil
  then show ?case by simp
next
  case (Cons node nodes)
  then obtain st1 where b: "UnflattenImpl_body self node st = Inr st1"
    and l: "UnflattenImpl_loop self nodes st1 = Inr st'"
    by (auto split: sum.splits)
  from Cons.IH [OF l] body_agenda [OF b] show ?case by simp
qed

lemma ToString_body_agenda:
  "ToString_body node ag = Inr ag' \<Longrightarrow> length ag' \<le> length ag + 1"
  by (cases "kind node")
     (auto simp: ToString_body_def ToString_push_def Let_def split: if_splits sum.splits)

lemma ToString_loop_agenda:
  "ToString_loop nodes ag = Inr ag' \<Longrightarrow> length ag' \<le> length ag + length nodes"
proof (induction nodes arbitrary: ag)
  case Nil
  then show ?case by simp
next
  case (Cons node nodes)
  then obtain ag1 where b: "ToString_body node ag = Inr ag1"
    and l: "ToString_loop nodes ag1 = Inr ag'"
    by (auto split: sum.splits)
  from Cons.IH [OF l] ToString_body_agenda [OF b] show ?case by simp
qed

text \<open>
  C4 (as amended). At every step of the reconstruction loop and of the rendering loop,
  started on an empty agenda, the agenda holds at most as many items as nodes have been
  processed so far, hence at most as many as the descriptor has nodes. (The largest
  arity is no bound.)
\<close>

theorem agenda_bounded_by_nodes_processed:
  "(UnflattenImpl_loop self (take k (traversal self))
        \<lparr>agenda = [], it = leaves, leaf_count = 0\<rparr> = Inr st
      \<longrightarrow> length (agenda st) \<le> k \<and> length (agenda st) \<le> length (traversal self))
   \<and> (ToString_loop (take k (traversal self)) [] = Inr ag
      \<longrightarrow> length ag \<le> k \<and> length ag \<le> length (traversal self))"
proof (intro conjI impI)
  assume l: "UnflattenImpl_loop self (take k (traversal self))
        \<lparr>agenda = [], it = leaves, leaf_count = 0\<rparr> = Inr st"
  from loop_agenda [OF l] show "length (agenda st) \<le> k" by simp
  from loop_agenda [OF l] show "length (agenda st) \<le> length (traversal self)" by simp
next
  assume l: "ToString_loop (take k (traversal self)) [] = Inr ag"
  from ToString_loop_agenda [OF l] show "length ag \<le> k" by simp
  from ToString_loop_agenda [OF l] show "length ag \<le> length (traversal self)" by simp
qed

theorem agenda_bounded_by_nodes_processed_witness:
  "UnflattenImpl_loop nested_spec (take 3 (traversal nested_spec))
      \<lparr>agenda = [], it = [PyInt 1, PyInt 2, PyInt 3], leaf_count = 0\<rparr>
    = Inr \<lparr>agenda = [PyInt 1, PyInt 2, PyInt 3], it = [], leaf_count = 3\<rparr>
   \<and> ToString_loop (take 3 (traversal nested_spec)) [] = Inr [''*'', ''*'', ''*'']
   \<and> length [PyInt 1, PyInt 2, PyInt 3] \<le> (3::nat)"
  using agenda_bounded_by_nodes_processed [of nested_spec 3 "[PyInt 1, PyInt 2, PyInt 3]"
      "\<lparr>agenda = [PyInt 1, PyInt 2, PyInt 3], it = [], leaf_count = 3\<rparr>" "[''*'', ''*'', ''*'']"]
  by (simp add: nested_spec_def unflatten_eval tostring_eval node_eval)

text \<open>
  The claim as first stated fails on the descriptor of \<^verbatim>\<open>(a, (b, c))\<close>, which
  reconstructs and renders without error: after its three leaves the agenda of either
  loop holds three items, and the largest arity is two.
\<close>

theorem agenda_exceeds_max_arity_counterexample:
  "UnflattenImpl nested_spec [PyInt 1, PyInt 2, PyInt 3]
      = Inr (PyTuple [PyInt 1, PyTuple [PyInt 2, PyInt 3]])
   \<and> ToString nested_spec = Inr ''PyTreeSpec((*, (*, *)))''
   \<and> UnflattenImpl_loop nested_spec (take 3 (traversal nested_spec))
        \<lparr>agenda = [], it = [PyInt 1, PyInt 2, PyInt 3], leaf_count = 0\<rparr>
      = Inr \<lparr>agenda = [PyInt 1, PyInt 2, PyInt 3], it = [], leaf_count = 3\<rparr>
   \<and> ToString_loop (take 3 (traversal nested_spec)) [] = Inr [''*'', ''*'', ''*'']
   \<and> max_arity (traversal nested_spec) = 2
   \<and> max_arity (traversal nested_spec) < int (length [PyInt 1, PyInt 2, PyInt 3])"
  by (simp add: nested_spec_def unflatten_eval tostring_eval node_eval max_arity_def)

section \<open>Structural equality\<close>

lemma spec_nodes_match_erase:
  "erase_counts x = erase_counts y \<Longrightarrow> spec_nodes_match x y"
proof -
  assume e: "erase_counts x = erase_counts y"
  then have "kind x = kind y" "arity x = arity y" "node_data x = node_data y"
    "custom x = custom y"
    unfolding erase_counts_def by (cases x, cases y, simp)+
  then show ?thesis
    by (simp add: spec_nodes_match_def py_eq_refl split: option.splits)
qed

lemma list_all2_erase:
  "map erase_counts xs = map erase_counts ys \<Longrightarrow> list_all2 spec_nodes_match xs ys"
proof (induction xs arbitrary: ys)
  case Nil
  then show ?case by simp
next
  case (Cons x xs)
  then obtain y ys' where "ys = y # ys'" by (cases ys) auto
  with Cons show ?case by (auto intro: spec_nodes_match_erase)
qed

text \<open>
  C5. \<^verbatim>\<open>operator==\<close> is false when the two traversals differ in length; otherwise
  it holds exactly when the nodes agree position by position on kind, arity, presence of
  node data, the node data itself where both have it (compared with Python's
  \<^verbatim>\<open>==\<close>, so a key list holding \<^verbatim>\<open>Box(1)\<close> equals one holding \<^verbatim>\<open>(1,)\<close>), and the
  registration. The stored leaf and node counts take no part: two descriptors that agree
  once the counts are erased compare equal.
\<close>

theorem operator_eq_structural:
  "(operator_eq a b \<longleftrightarrow>
      length (traversal a) = length (traversal b)
      \<and> (\<forall>i < length (traversal a). spec_nodes_match (traversal a ! i) (traversal b ! i)))
   \<and> (map erase_counts (traversal a) = map erase_counts (traversal b) \<longrightarrow> operator_eq a b)"
  by (auto simp: operator_eq_iff_list_all2 list_all2_conv_all_nth dest: list_all2_erase)

theorem operator_eq_structural_witness:
  "operator_eq \<lparr>traversal = [leaf_node]\<rparr>
     \<lparr>traversal = [leaf_node\<lparr>num_leaves := 7, num_nodes := 9\<rparr>]\<rparr>
   \<and> \<not> operator_eq \<lparr>traversal = [leaf_node]\<rparr> \<lparr>traversal = [leaf_node, leaf_node]\<rparr>
   \<and> operator_eq \<lparr>traversal = [leaf_node, dict_node [PyInstance Box [PyInt 1]]]\<rparr>
        \<lparr>traversal = [leaf_node, dict_node [PyTuple [PyInt 1]]]\<rparr>
   \<and> \<not> operator_eq \<lparr>traversal = [leaf_node, dict_node [PyStr ''a'']]\<rparr>
        \<lparr>traversal = [leaf_node, dict_node [PyStr ''b'']]\<rparr>"
  using operator_eq_structural [of "\<lparr>traversal = [leaf_node]\<rparr>"
          "\<lparr>traversal = [leaf_node\<lparr>num_leaves := 7, num_nodes := 9\<rparr>]\<rparr>"]
        operator_eq_structural [of "\<lparr>traversal = [leaf_node]\<rparr>"
          "\<lparr>traversal = [leaf_node, leaf_node]\<rparr>"]
        operator_eq_structural [of "\<lparr>traversal = [leaf_node, dict_node [PyInstance Box [PyInt 1]]]\<rparr>"
          "\<lparr>traversal = [leaf_node, dict_node [PyTuple [PyInt 1]]]\<rparr>"]
        operator_eq_structural [of "\<lparr>traversal = [leaf_node, dict_node [PyStr ''a'']]\<rparr>"
          "\<lparr>traversal = [leaf_node, dict_node [PyStr ''b'']]\<rparr>"]
  by (simp add: erase_counts_def leaf_node_def dict_node_def spec_nodes_match_def
        All_less_Suc)

section \<open>The errors of reconstruction\<close>

lemma MakeNode_dict_error:
  "MakeNode_dict keys children d = Inl e \<Longrightarrow> \<exists>x. e = error_already_set x"
  by (induction keys children d rule: MakeNode_dict.induct) (auto split: if_splits)

lemma py_call_error: "py_call f args = Inl e \<Longrightarrow> \<exists>x. e = error_already_set x"
  by (auto simp: py_call_def split: pyobject.splits option.splits if_splits)

lemma MakeNode_error:
  "MakeNode node children = Inl e \<Longrightarrow>
   e = ArityMismatch \<or> e = MakeNodeLeaf \<or> e = UnreachableCode \<or> e = UndefinedBehaviour
   \<or> e = cast_error \<or> (\<exists>x. e = error_already_set x)"
  unfolding MakeNode_def
  by (cases "kind node")
     (auto split: if_splits option.splits pyobject.splits sum.splits
           dest: MakeNode_dict_error py_call_error)

lemma build_node_error:
  "build_node node st = Inl e \<Longrightarrow>
   e = ArityMismatch \<or> e = MakeNodeLeaf \<or> e = UnreachableCode \<or> e = UndefinedBehaviour
   \<or> e = cast_error \<or> (\<exists>x. e = error_already_set x)"
  by (auto simp: build_node_def Let_def split: sum.splits dest: MakeNode_error)

lemma body_TooFewLeaves:
  "UnflattenImpl_body self node st = Inl (TooFewLeaves e g) \<longleftrightarrow>
     consumes_leaf node \<and> sint (arity node) \<le> int (length (agenda st)) \<and> it st = []
     \<and> e = PyTreeSpec_num_leaves self \<and> g = leaf_count st"
proof (cases "consumes_leaf node")
  case True
  then show ?thesis
    by (auto simp: UnflattenImpl_body_def consumes_leaf_def take_leaf_def split: list.splits)
next
  case False
  have "UnflattenImpl_body self node st \<noteq> Inl (TooFewLeaves e g)"
  proof
    assume a: "UnflattenImpl_body self node st = Inl (TooFewLeaves e g)"
    with False have "build_node node st = Inl (TooFewLeaves e g)"
      by (cases "kind node") (auto simp: UnflattenImpl_body_def consumes_leaf_def split: if_splits)
    from build_node_error [OF this] show False by simp
  qed
  with False show ?thesis by simp
qed

lemma body_error_not_final:
  "UnflattenImpl_body self node st = Inl e \<Longrightarrow> e \<noteq> TooManyLeaves n \<and> e \<noteq> NotSingleton"
proof (cases "consumes_leaf node")
  case True
  assume "UnflattenImpl_body self node st = Inl e"
  with True show ?thesis
    by (auto simp: UnflattenImpl_body_def consumes_leaf_def take_leaf_def split: list.splits if_splits)
next
  case False
  assume a: "UnflattenImpl_body self node st = Inl e"
  with False have "e = TooFewElementsNode \<or> e = UnreachableCode \<or> build_node node st = Inl e"
    by (cases "kind node") (auto simp: UnflattenImpl_body_def consumes_leaf_def split: if_splits)
  then show ?thesis by (auto dest: build_node_error)
qed

lemma loop_error_not_final:
  "UnflattenImpl_loop self nodes st = Inl e \<Longrightarrow> e \<noteq> TooManyLeaves n \<and> e \<noteq> NotSingleton"
proof (induction nodes arbitrary: st)
  case Nil
  then show ?case by simp
next
  case (Cons node nodes)
  show ?case
  proof (cases "UnflattenImpl_body self node st")
    case (Inl e')
    with Cons.prems have "e' = e" by simp
    with Inl body_error_not_final show ?thesis by blast
  next
    case (Inr st1)
    with Cons.prems have "UnflattenImpl_loop self nodes st1 = Inl e" by simp
    then show ?thesis by (rule Cons.IH)
  qed
qed

lemma loop_TooFewLeaves:
  "UnflattenImpl_loop self nodes st = Inl (TooFewLeaves e g) \<longleftrightarrow>
     (\<exists>pre node post st1. nodes = pre @ node # post
        \<and> UnflattenImpl_loop self pre st = Inr st1
        \<and> consumes_leaf node \<and> sint (arity node) \<le> int (length (agenda st1)) \<and> it st1 = []
        \<and> e = PyTreeSpec_num_leaves self \<and> g = leaf_count st1)"
  (is "?L nodes st = ?R nodes st")
proof
  show "?L nodes st \<Longrightarrow> ?R nodes st"
  proof (induction nodes arbitrary: st)
    case Nil
    then show ?case by simp
  next
    case (Cons node nodes)
    show ?case
    proof (cases "UnflattenImpl_body self node st")
      case (Inl e')
      with Cons.prems have "UnflattenImpl_body self node st = Inl (TooFewLeaves e g)" by simp
      then have "consumes_leaf node \<and> sint (arity node) \<le> int (length (agenda st)) \<and> it st = []
        \<and> e = PyTreeSpec_num_leaves self \<and> g = leaf_count st"
        by (simp add: body_TooFewLeaves)
      then have "node # nodes = [] @ node # nodes \<and> UnflattenImpl_loop self [] st = Inr st
        \<and> consumes_leaf node \<and> sint (arity node) \<le> int (length (agenda st)) \<and> it st = []
        \<and> e = PyTreeSpec_num_leaves self \<and> g = leaf_count st"
        by simp
      then show ?thesis by blast
    next
      case (Inr st1)
      with Cons.prems have "UnflattenImpl_loop self nodes st1 = Inl (TooFewLeaves e g)" by simp
      from Cons.IH [OF this] obtain pre n post st2 where
        "nodes = pre @ n # post" "UnflattenImpl_loop self pre st1 = Inr st2"
        "consumes_leaf n" "sint (arity n) \<le> int (length (agenda st2))" "it st2 = []"
        "e = PyTreeSpec_num_leaves self" "g = leaf_count st2"
        by blast
      with Inr have "node # nodes = (node # pre) @ n # post
        \<and> UnflattenImpl_loop self (node # pre) st = Inr st2
        \<and> consumes_leaf n \<and> sint (arity n) \<le> int (length (agenda st2)) \<and> it st2 = []
        \<and> e = PyTreeSpec_num_leaves self \<and> g = leaf_count st2"
        by simp
      then show ?thesis by blast
    qed
  qed
next
  assume "?R nodes st"
  then obtain pre node post st1 where
    n: "nodes = pre @ node # post" and l: "UnflattenImpl_loop self pre st = Inr st1"
    and c: "consumes_leaf node \<and> sint (arity node) \<le> int (length (agenda st1)) \<and> it st1 = []
        \<and> e = PyTreeSpec_num_leaves self \<and> g = leaf_count st1"
    by blast
  from c have "UnflattenImpl_body self node st1 = Inl (TooFewLeaves e g)"
    by (simp add: body_TooFewLeaves)
  with n l show "?L nodes st"
    by (simp add: UnflattenImpl_loop_append)
qed

lemma build_node_it_update:
  "build_node node (st\<lparr>it := l\<rparr>) =
     (case build_node node st of Inl e \<Rightarrow> Inl e | Inr s \<Rightarrow> Inr (s\<lparr>it := l\<rparr>))"
  by (auto simp: build_node_def Let_def split: sum.splits)

lemma body_it_update_other:
  "\<not> consumes_leaf node \<Longrightarrow>
   UnflattenImpl_body self node (st\<lparr>it := l\<rparr>) =
     (case UnflattenImpl_body self node st of Inl e \<Rightarrow> Inl e | Inr s \<Rightarrow> Inr (s\<lparr>it := l\<rparr>))"
  by (cases "kind node")
     (auto simp: UnflattenImpl_body_def consumes_leaf_def build_node_it_update)

lemma loop_more_leaves:
  "UnflattenImpl_loop self nodes st = Inr st' \<Longrightarrow>
   UnflattenImpl_loop self nodes (st\<lparr>it := it st @ extra\<rparr>) = Inr (st'\<lparr>it := it st' @ extra\<rparr>)"
proof (induction nodes arbitrary: st)
  case Nil
  then show ?case by simp
next
  case (Cons node nodes)
  then obtain st1 where b: "UnflattenImpl_body self node st = Inr st1"
    and l: "UnflattenImpl_loop self nodes st1 = Inr st'"
    by (auto split: sum.splits)
  have "UnflattenImpl_body self node (st\<lparr>it := it st @ extra\<rparr>) = Inr (st1\<lparr>it := it st1 @ extra\<rparr>)"
  proof (cases "consumes_leaf node")
    case True
    with b show ?thesis
      by (auto simp: UnflattenImpl_body_def consumes_leaf_def take_leaf_def
               split: if_splits list.splits)
  next
    case False
    with b body_it_other [OF False b] show ?thesis
      by (simp add: body_it_update_other)
  qed
  with Cons.IH [OF l] show ?case by simp
qed

lemma loop_fewer_leaves:
  "UnflattenImpl_loop self nodes st = Inr st' \<Longrightarrow> it st' = [] \<Longrightarrow> n < length (it st) \<Longrightarrow>
   UnflattenImpl_loop self nodes (st\<lparr>it := take n (it st)\<rparr>)
     = Inl (TooFewLeaves (PyTreeSpec_num_leaves self) (leaf_count st + of_nat n))"
proof (induction nodes arbitrary: st n)
  case Nil
  then show ?case by simp
next
  case (Cons node nodes)
  from Cons.prems(1) obtain st1 where b: "UnflattenImpl_body self node st = Inr st1"
    and l: "UnflattenImpl_loop self nodes st1 = Inr st'"
    by (auto split: sum.splits)
  show ?case
  proof (cases "consumes_leaf node")
    case True
    from b have g: "\<not> int (length (agenda st)) < sint (arity node)"
      by (auto simp: UnflattenImpl_body_def split: if_splits)
    from body_it_leaf [OF True b] obtain x where x: "it st = x # it st1" by blast
    from b True g x have st1: "st1 = st\<lparr>agenda := agenda st @ [x], it := it st1, leaf_count := leaf_count st + 1\<rparr>"
      by (simp add: body_consumes_leaf take_leaf_def)
    show ?thesis
    proof (cases n)
      case 0
      with True g show ?thesis
        by (simp add: body_consumes_leaf take_leaf_def)
    next
      case (Suc m)
      with Cons.prems(3) x have m: "m < length (it st1)" by simp
      from Suc x True g
      have "UnflattenImpl_body self node (st\<lparr>it := take n (it st)\<rparr>)
              = Inr (st\<lparr>agenda := agenda st @ [x], it := take m (it st1), leaf_count := leaf_count st + 1\<rparr>)"
        by (simp add: body_consumes_leaf take_leaf_def)
      also have "st\<lparr>agenda := agenda st @ [x], it := take m (it st1), leaf_count := leaf_count st + 1\<rparr>
              = st1\<lparr>it := take m (it st1)\<rparr>"
        by (subst (2) st1) simp
      finally have "UnflattenImpl_body self node (st\<lparr>it := take n (it st)\<rparr>)
              = Inr (st1\<lparr>it := take m (it st1)\<rparr>)" .
      moreover have "leaf_count st1 = leaf_count st + 1"
        by (subst st1) simp
      moreover note Cons.IH [OF l Cons.prems(2) m]
      ultimately show ?thesis using Suc by (simp add: add.assoc add.commute)
    qed
  next
    case False
    from body_it_other [OF False b] have i: "it st1 = it st" .
    from body_not_consumes_leaf [OF False b] build_node_it have c: "leaf_count st1 = leaf_count st"
      by blast
    from Cons.prems(3) i have "n < length (it st1)" by simp
    from Cons.IH [OF l Cons.prems(2) this] False b i c show ?thesis
      by (simp add: body_it_update_other)
  qed
qed

text \<open>
  C6. Reconstruction fails with the too-few-leaves error exactly when the walk reaches a
  node of the leaf-taking branch (its arity check passed, as it always does when these
  nodes have arity 0) and the leaf iterator is at its end; the error carries the stored
  leaf count and the number of leaves taken so far.
  When the walk completes, it fails with the too-many-leaves error exactly when leaves
  remain, and with the not-a-singleton error exactly when none remain and the agenda does
  not hold one item. In particular, when reconstruction succeeds on a leaf sequence, it
  fails with too few leaves on every proper prefix of it and with too many leaves on
  every proper extension: a descriptor that takes three leaves fails in the first way
  on two of them and in the second way on four.
\<close>

theorem Unflatten_errors:
  "(UnflattenImpl self leaves = Inl (TooFewLeaves e g) \<longleftrightarrow>
      (\<exists>pre node post st. traversal self = pre @ node # post
         \<and> UnflattenImpl_loop self pre \<lparr>agenda = [], it = leaves, leaf_count = 0\<rparr> = Inr st
         \<and> consumes_leaf node \<and> sint (arity node) \<le> int (length (agenda st)) \<and> it st = []
         \<and> e = PyTreeSpec_num_leaves self \<and> g = leaf_count st))
   \<and> ((\<forall>node \<in> set (traversal self). consumes_leaf node \<longrightarrow> sint (arity node) \<le> 0) \<longrightarrow>
       (UnflattenImpl self leaves = Inl (TooFewLeaves e g) \<longleftrightarrow>
         (\<exists>pre node post st. traversal self = pre @ node # post
            \<and> UnflattenImpl_loop self pre \<lparr>agenda = [], it = leaves, leaf_count = 0\<rparr> = Inr st
            \<and> consumes_leaf node \<and> it st = []
            \<and> e = PyTreeSpec_num_leaves self \<and> g = leaf_count st)))
   \<and> (UnflattenImpl self leaves = Inl (TooManyLeaves e) \<longleftrightarrow>
      (\<exists>st. UnflattenImpl_loop self (traversal self) \<lparr>agenda = [], it = leaves, leaf_count = 0\<rparr> = Inr st
         \<and> it st \<noteq> [] \<and> e = PyTreeSpec_num_leaves self))
   \<and> (UnflattenImpl self leaves = Inl NotSingleton \<longleftrightarrow>
      (\<exists>st. UnflattenImpl_loop self (traversal self) \<lparr>agenda = [], it = leaves, leaf_count = 0\<rparr> = Inr st
         \<and> it st = [] \<and> length (agenda st) \<noteq> 1))
   \<and> (UnflattenImpl self leaves = Inr out \<and> n < length leaves \<longrightarrow>
        UnflattenImpl self (take n leaves)
          = Inl (TooFewLeaves (PyTreeSpec_num_leaves self) (of_nat n)))
   \<and> (UnflattenImpl self leaves = Inr out \<and> extra \<noteq> [] \<longrightarrow>
        UnflattenImpl self (leaves @ extra) = Inl (TooManyLeaves (PyTreeSpec_num_leaves self)))"
proof (intro conjI)
  let ?init = "\<lparr>agenda = [], it = leaves, leaf_count = 0\<rparr>"
  show general: "UnflattenImpl self leaves = Inl (TooFewLeaves e g) \<longleftrightarrow>
      (\<exists>pre node post st. traversal self = pre @ node # post
         \<and> UnflattenImpl_loop self pre ?init = Inr st
         \<and> consumes_leaf node \<and> sint (arity node) \<le> int (length (agenda st)) \<and> it st = []
         \<and> e = PyTreeSpec_num_leaves self \<and> g = leaf_count st)"
    unfolding loop_TooFewLeaves [symmetric]
    by (auto simp: UnflattenImpl_def split: sum.splits)
  show "(\<forall>node \<in> set (traversal self). consumes_leaf node \<longrightarrow> sint (arity node) \<le> 0) \<longrightarrow>
       (UnflattenImpl self leaves = Inl (TooFewLeaves e g) \<longleftrightarrow>
         (\<exists>pre node post st. traversal self = pre @ node # post
            \<and> UnflattenImpl_loop self pre ?init = Inr st
            \<and> consumes_leaf node \<and> it st = []
            \<and> e = PyTreeSpec_num_leaves self \<and> g = leaf_count st))"
  proof
    assume z: "\<forall>node \<in> set (traversal self). consumes_leaf node \<longrightarrow> sint (arity node) \<le> 0"
    have "sint (arity node) \<le> int (length (agenda st))"
      if "traversal self = pre @ node # post" and "consumes_leaf node"
      for pre node post and st :: unflatten_state
    proof -
      from that(1) have "node \<in> set (traversal self)" by simp
      with z that(2) have "sint (arity node) \<le> 0" by blast
      then show ?thesis by simp
    qed
    then show "UnflattenImpl self leaves = Inl (TooFewLeaves e g) \<longleftrightarrow>
         (\<exists>pre node post st. traversal self = pre @ node # post
            \<and> UnflattenImpl_loop self pre ?init = Inr st
            \<and> consumes_leaf node \<and> it st = []
            \<and> e = PyTreeSpec_num_leaves self \<and> g = leaf_count st)"
      unfolding general by blast
  qed
  show "UnflattenImpl self leaves = Inl (TooManyLeaves e) \<longleftrightarrow>
      (\<exists>st. UnflattenImpl_loop self (traversal self) ?init = Inr st
         \<and> it st \<noteq> [] \<and> e = PyTreeSpec_num_leaves self)"
    using loop_error_not_final [of self "traversal self" ?init]
    by (auto simp: UnflattenImpl_def split: sum.splits)
  show "UnflattenImpl self leaves = Inl NotSingleton \<longleftrightarrow>
      (\<exists>st. UnflattenImpl_loop self (traversal self) ?init = Inr st
         \<and> it st = [] \<and> length (agenda st) \<noteq> 1)"
    using loop_error_not_final [of self "traversal self" ?init]
    by (auto simp: UnflattenImpl_def split: sum.splits)
  show "UnflattenImpl self leaves = Inr out \<and> n < length leaves \<longrightarrow>
        UnflattenImpl self (take n leaves)
          = Inl (TooFewLeaves (PyTreeSpec_num_leaves self) (of_nat n))"
  proof
    assume a: "UnflattenImpl self leaves = Inr out \<and> n < length leaves"
    then obtain st where l: "UnflattenImpl_loop self (traversal self) ?init = Inr st"
      and i: "it st = []"
      by (auto simp: UnflattenImpl_def split: sum.splits if_splits)
    from a have "n < length (it ?init)" by simp
    from loop_fewer_leaves [OF l i this]
    show "UnflattenImpl self (take n leaves)
          = Inl (TooFewLeaves (PyTreeSpec_num_leaves self) (of_nat n))"
      by (simp add: UnflattenImpl_def)
  qed
  show "UnflattenImpl self leaves = Inr out \<and> extra \<noteq> [] \<longrightarrow>
        UnflattenImpl self (leaves @ extra) = Inl (TooManyLeaves (PyTreeSpec_num_leaves self))"
  proof
    assume a: "UnflattenImpl self leaves = Inr out \<and> extra \<noteq> []"
    then obtain st where l: "UnflattenImpl_loop self (traversal self) ?init = Inr st"
      by (auto simp: UnflattenImpl_def split: sum.splits if_splits)
    from loop_more_leaves [OF l, of extra] a
    show "UnflattenImpl self (leaves @ extra) = Inl (TooManyLeaves (PyTreeSpec_num_leaves self))"
      by (simp add: UnflattenImpl_def)
  qed
qed

theorem Unflatten_errors_witness:
  "UnflattenImpl leaves3_spec [PyInt 1, PyInt 2, PyInt 3] = Inr (PyTuple [PyInt 1, PyInt 2, PyInt 3])
   \<and> PyTreeSpec_num_leaves leaves3_spec = 3
   \<and> UnflattenImpl leaves3_spec [PyInt 1, PyInt 2] = Inl (TooFewLeaves 3 2)
   \<and> UnflattenImpl leaves3_spec [PyInt 1, PyInt 2, PyInt 3, PyInt 4] = Inl (TooManyLeaves 3)"
  using Unflatten_errors [of leaves3_spec "[PyInt 1, PyInt 2, PyInt 3]" 3 2
      "PyTuple [PyInt 1, PyInt 2, PyInt 3]" 2 "[PyInt 4]"]
  by (simp add: leaves3_spec_def unflatten_eval node_eval)

section \<open>Rendering\<close>

lemma ToString_singleton_tuple:
  "kind node = Tuple \<Longrightarrow> arity node = 1 \<Longrightarrow>
   ToString_body node (pre @ [child]) = Inr (pre @ [''('' @ child @ '',)''])"
  by (simp add: ToString_body_def ToString_push_def)

text \<open>
  C7 (as amended). Rendering: a \<^verbatim>\<open>Tuple\<close> node of arity 1 replaces its child
  fragment by that fragment in parentheses with a comma after it; a rendering that
  succeeds is the single fragment left on the agenda wrapped in \<^verbatim>\<open>PyTreeSpec(\<close> and
  \<^verbatim>\<open>)\<close>; and the descriptor of \<^verbatim>\<open>{'a': [1, 2], 'b': None}\<close> renders as
  \<^verbatim>\<open>PyTreeSpec({'a': [*, *], 'b': None})\<close>.
\<close>

theorem ToString_render:
  "(kind node = Tuple \<and> arity node = 1 \<longrightarrow>
      ToString_body node (pre @ [child]) = Inr (pre @ [''('' @ child @ '',)'']))
   \<and> (ToString self = Inr text \<longrightarrow>
      (\<exists>root. ToString_loop (traversal self) [] = Inr [root]
         \<and> text = ''PyTreeSpec('' @ root @ '')''))
   \<and> ToString example_spec = Inr ''PyTreeSpec({'a': [*, *], 'b': None})''"
proof (intro conjI impI)
  assume "kind node = Tuple \<and> arity node = 1"
  then show "ToString_body node (pre @ [child]) = Inr (pre @ [''('' @ child @ '',)''])"
    by (simp add: ToString_singleton_tuple)
next
  assume a: "ToString self = Inr text"
  then obtain ag where l: "ToString_loop (traversal self) [] = Inr ag" and n: "length ag = 1"
    and t: "text = ''PyTreeSpec('' @ last ag @ '')''"
    by (auto simp: ToString_def split: sum.splits if_splits)
  from n obtain root where "ag = [root]"
    by (cases ag) auto
  with l t show "\<exists>root. ToString_loop (traversal self) [] = Inr [root]
         \<and> text = ''PyTreeSpec('' @ root @ '')''"
    by simp
next
  show "ToString example_spec = Inr ''PyTreeSpec({'a': [*, *], 'b': None})''"
    by (simp add: example_spec_def list_node_def tostring_eval node_eval)
qed

theorem ToString_render_witness:
  "ToString \<lparr>traversal = [leaf_node, tuple_node 1]\<rparr> = Inr ''PyTreeSpec((*,))''
   \<and> ToString_body (tuple_node 1) [''*''] = Inr [''(*,)'']"
  using ToString_render [of "tuple_node 1" "[]" "''*''" "\<lparr>traversal = [leaf_node, tuple_node 1]\<rparr>"
      "''PyTreeSpec((*,))''"]
  by (simp add: tostring_eval node_eval)

text \<open>
  The claim as first stated names the text \<^verbatim>\<open>Spec({'a': [*, *], 'b': none})\<close>;
  the rendering of that descriptor is a different text.
\<close>

theorem ToString_render_counterexample:
  "ToString example_spec = Inr ''PyTreeSpec({'a': [*, *], 'b': None})''
   \<and> ToString example_spec \<noteq> Inr ''Spec({'a': [*, *], 'b': none})''"
  by (simp add: example_spec_def list_node_def tostring_eval node_eval)

section \<open>The empty descriptor\<close>

text \<open>
  C8 (as amended). The empty descriptor is not rejected by any operation up front.
  Deserializing the empty record sequence yields it; its leaf count is 0; reconstructing
  it fails, with the not-a-singleton error from an empty leaf sequence and with the
  too-many-leaves error from any other; rendering it fails with the not-a-singleton
  error; its encoding is the empty list; and it is equal to itself.
\<close>

theorem empty_spec:
  "FromPicklable registry (PyList []) = Inr \<lparr>traversal = []\<rparr>
   \<and> PyTreeSpec_num_leaves \<lparr>traversal = []\<rparr> = 0
   \<and> UnflattenImpl \<lparr>traversal = []\<rparr> [] = Inl NotSingleton
   \<and> (leaves \<noteq> [] \<longrightarrow> UnflattenImpl \<lparr>traversal = []\<rparr> leaves = Inl (TooManyLeaves 0))
   \<and> ToString \<lparr>traversal = []\<rparr> = Inl NotSingleton
   \<and> ToPicklable \<lparr>traversal = []\<rparr> = PyList []
   \<and> operator_eq \<lparr>traversal = []\<rparr> \<lparr>traversal = []\<rparr>"
  by (simp add: FromPicklable_def FromPicklableImpl_def PyTreeSpec_num_leaves_def
      UnflattenImpl_def ToString_def ToPicklable_def operator_eq_def)

theorem empty_spec_witness:
  "[PyNone, PyNone] \<noteq> []
   \<and> UnflattenImpl \<lparr>traversal = []\<rparr> [PyNone, PyNone] = Inl (TooManyLeaves 0)
   \<and> FromPicklable Map.empty (PyList []) = Inr \<lparr>traversal = []\<rparr>"
  using empty_spec [of Map.empty "[PyNone, PyNone]"]
  by simp

text \<open>
  The claim as first stated fails for a leaf sequence that is not empty: reconstructing
  the empty descriptor from one leaf fails with the too-many-leaves error, which is
  checked before the agenda is.
\<close>

theorem empty_spec_counterexample:
  "FromPicklable Map.empty (PyList []) = Inr \<lparr>traversal = []\<rparr>
   \<and> UnflattenImpl \<lparr>traversal = []\<rparr> [PyInt 1] = Inl (TooManyLeaves 0)
   \<and> UnflattenImpl \<lparr>traversal = []\<rparr> [PyInt 1] \<noteq> Inl NotSingleton"
  by (simp add: FromPicklable_def FromPicklableImpl_def PyTreeSpec_num_leaves_def
      UnflattenImpl_def)

section \<open>Dictionaries with repeated keys\<close>

lemma list_all2_key_form:
  assumes "\<And>x y. x \<in> set xs \<Longrightarrow> y \<in> set ys \<Longrightarrow> hashable x \<Longrightarrow> hashable y \<Longrightarrow>
             R x y = (f x = f y)"
    and "list_all hashable xs" and "list_all hashable ys"
  shows "list_all2 R xs ys = (map f xs = map f ys)"
  using assms
proof (induction xs arbitrary: ys)
  case Nil
  then show ?case by auto
next
  case (Cons x xs)
  show ?case
  proof (cases ys)
    case Nil
    then show ?thesis by simp
  next
    case ys: (Cons y ys')
    from Cons.prems ys have 1: "R x y = (f x = f y)" by simp
    from Cons.prems ys have 2: "list_all2 R xs ys' = (map f xs = map f ys')"
      by (intro Cons.IH) simp_all
    from 1 2 ys show ?thesis by simp
  qed
qed

lemma py_eq_key_form:
  "hashable x \<Longrightarrow> hashable y \<Longrightarrow> py_eq x y = (key_form x = key_form y)"
proof (induction x y rule: py_eq.induct)
  case (4 xs ys)
  then show ?case by (simp add: list_all2_key_form [where f = key_form])
next
  case (5 xs u ys)
  then show ?case by (simp add: list_all2_key_form [where f = key_form])
next
  case (6 t xs ys)
  then show ?case by (simp add: list_all2_key_form [where f = key_form])
next
  case (7 t xs u ys)
  then show ?case by (simp add: list_all2_key_form [where f = key_form])
qed simp_all

lemma keys_dict_setitem:
  "map fst (dict_setitem d k v) =
     (if list_ex (\<lambda>s. py_eq s k) (map fst d) then map fst d else map fst d @ [k])"
  by (induction d k v rule: dict_setitem.induct) auto

lemma hashable_dict_setitem:
  "list_all hashable (map fst d) \<Longrightarrow> hashable k \<Longrightarrow>
   list_all hashable (map fst (dict_setitem d k v))"
  by (simp add: keys_dict_setitem)

lemma map_of_dict_setitem:
  "list_all hashable (map fst d) \<Longrightarrow> hashable k \<Longrightarrow>
   map_of (map (\<lambda>(k', v'). (key_form k', v')) (dict_setitem d k v))
     = (map_of (map (\<lambda>(k', v'). (key_form k', v')) d))(key_form k \<mapsto> v)"
  by (induction d k v rule: dict_setitem.induct)
     (auto simp: py_eq_key_form fun_upd_twist)

lemma map_of_dict_getitem:
  "list_all hashable (map fst d) \<Longrightarrow> hashable k \<Longrightarrow>
   dict_getitem d k = map_of (map (\<lambda>(k', v'). (key_form k', v')) d) (key_form k)"
  by (induction d k rule: dict_getitem.induct) (auto simp: py_eq_key_form)

lemma length_first_occurrences: "length (first_occurrences seen keys) \<le> length keys"
  by (induction seen keys rule: first_occurrences.induct) auto

lemma first_occurrences_seen:
  "\<exists>x \<in> set keys. \<exists>s \<in> set seen. py_eq s x \<Longrightarrow>
   length (first_occurrences seen keys) < length keys"
proof (induction seen keys rule: first_occurrences.induct)
  case (1 seen)
  then show ?case by simp
next
  case (2 seen k keys)
  show ?case
  proof (cases "list_ex (\<lambda>s. py_eq s k) seen")
    case True
    with length_first_occurrences [of seen keys] show ?thesis by simp
  next
    case False
    with "2.prems" have "\<exists>x \<in> set keys. \<exists>s \<in> set (seen @ [k]). py_eq s x"
      by (auto simp: list_ex_iff)
    with False "2.IH"(2) show ?thesis by simp
  qed
qed

lemma first_occurrences_repeated:
  "i < j \<Longrightarrow> j < length keys \<Longrightarrow> py_eq (keys ! i) (keys ! j) \<Longrightarrow>
   length (first_occurrences seen keys) < length keys"
proof (induction seen keys arbitrary: i j rule: first_occurrences.induct)
  case (1 seen)
  then show ?case by simp
next
  case (2 seen k keys)
  from "2.prems" obtain j0 where j: "j = Suc j0" by (cases j) auto
  show ?case
  proof (cases i)
    case 0
    show ?thesis
    proof (cases "list_ex (\<lambda>s. py_eq s k) seen")
      case True
      with length_first_occurrences [of seen keys] show ?thesis by simp
    next
      case False
      from "2.prems" 0 j have "\<exists>x \<in> set keys. \<exists>s \<in> set (seen @ [k]). py_eq s x"
        by (auto intro!: bexI [where x = "keys ! j0"])
      then have "length (first_occurrences (seen @ [k]) keys) < length keys"
        by (rule first_occurrences_seen)
      with False show ?thesis by simp
    qed
  next
    case (Suc i0)
    with "2.prems" j have p: "i0 < j0" "j0 < length keys" "py_eq (keys ! i0) (keys ! j0)"
      by simp_all
    show ?thesis
    proof (cases "list_ex (\<lambda>s. py_eq s k) seen")
      case True
      with length_first_occurrences [of seen keys] show ?thesis by simp
    next
      case False
      with "2.IH"(2) [OF False p] show ?thesis by simp
    qed
  qed
qed

lemma map_of_last_occurrence:
  "length ks = length cs \<Longrightarrow> j < length ks \<Longrightarrow>
   (\<forall>j'. j < j' \<and> j' < length ks \<longrightarrow> ks ! j' \<noteq> ks ! j) \<Longrightarrow>
   map_of (rev (zip ks cs)) (ks ! j) = Some (cs ! j)"
proof (induction ks cs arbitrary: j rule: list_induct2)
  case Nil
  then show ?case by simp
next
  case (Cons k ks c cs)
  show ?case
  proof (cases j)
    case 0
    have "k \<notin> set ks"
    proof
      assume "k \<in> set ks"
      then obtain n where "n < length ks" "ks ! n = k" by (auto simp: in_set_conv_nth)
      with Cons.prems(2) [rule_format, of "Suc n"] 0 show False by simp
    qed
    then have "map_of (rev (zip ks cs)) k = None"
      by (auto simp: map_of_eq_None_iff dest: set_zip_leftD)
    with 0 show ?thesis by (simp add: map_add_def)
  next
    case (Suc j0)
    have "\<forall>j'. j0 < j' \<and> j' < length ks \<longrightarrow> ks ! j' \<noteq> ks ! j0"
    proof (intro allI impI)
      fix j' assume "j0 < j' \<and> j' < length ks"
      with Cons.prems(2) [rule_format, of "Suc j'"] Suc show "ks ! j' \<noteq> ks ! j0" by simp
    qed
    with Cons.IH [of j0] Cons.prems(1) Suc
    have "map_of (rev (zip ks cs)) (ks ! j0) = Some (cs ! j0)" by simp
    with Suc show ?thesis by (simp add: map_add_def)
  qed
qed

lemma MakeNode_dict_result:
  "length keys = length children \<Longrightarrow> list_all hashable keys \<Longrightarrow>
   list_all hashable (map fst d0) \<Longrightarrow>
   \<exists>d. MakeNode_dict keys children d0 = Inr (PyDict d)
     \<and> list_all hashable (map fst d)
     \<and> map fst d = map fst d0 @ first_occurrences (map fst d0) keys
     \<and> map_of (map (\<lambda>(k', v'). (key_form k', v')) d)
         = map_of (map (\<lambda>(k', v'). (key_form k', v')) d0)
           ++ map_of (rev (zip (map key_form keys) children))"
proof (induction keys children arbitrary: d0 rule: list_induct2)
  case Nil
  then show ?case by simp
next
  case (Cons k keys c children)
  let ?d1 = "dict_setitem d0 k c"
  from Cons.prems have h: "hashable k" and hs: "list_all hashable keys"
    and h0: "list_all hashable (map fst d0)" by simp_all
  from h0 h have h1: "list_all hashable (map fst ?d1)" by (rule hashable_dict_setitem)
  from Cons.IH [OF hs h1] obtain d where
    r: "MakeNode_dict keys children ?d1 = Inr (PyDict d)"
    and hd: "list_all hashable (map fst d)"
    and o: "map fst d = map fst ?d1 @ first_occurrences (map fst ?d1) keys"
    and m: "map_of (map (\<lambda>(k', v'). (key_form k', v')) d)
         = map_of (map (\<lambda>(k', v'). (key_form k', v')) ?d1)
           ++ map_of (rev (zip (map key_form keys) children))"
    by blast
  have 1: "MakeNode_dict (k # keys) (c # children) d0 = Inr (PyDict d)"
    using h r by simp
  have 2: "map fst d = map fst d0 @ first_occurrences (map fst d0) (k # keys)"
    using o by (simp add: keys_dict_setitem)
  have 3: "map_of (map (\<lambda>(k', v'). (key_form k', v')) d)
         = map_of (map (\<lambda>(k', v'). (key_form k', v')) d0)
           ++ map_of (rev (zip (map key_form (k # keys)) (c # children)))"
    using m by (simp add: map_of_dict_setitem [OF h0 h] map_add_upd_left)
  from 1 2 3 hd show ?case by blast
qed

lemma build_node_append:
  assumes "int (length children) = sint (arity node)"
  shows "build_node node (st\<lparr>agenda := pre @ children\<rparr>) =
     (case MakeNode node children of
        Inl e \<Rightarrow> Inl e
      | Inr out \<Rightarrow> Inr (st\<lparr>agenda := pre @ [out]\<rparr>))"
proof -
  from assms have n: "nat (sint (arity node)) = length children" by linarith
  show ?thesis
  proof (cases "0 < sint (arity node)")
    case True
    then show ?thesis
      by (simp add: build_node_def n split: sum.splits)
  next
    case False
    with assms have "length children = 0" by linarith
    then have "children = []" by simp
    with False show ?thesis
      by (simp add: build_node_def n split: sum.splits)
  qed
qed

text \<open>
  C9. Let a \<^verbatim>\<open>Dict\<close> node hold a key list with as many (hashable) keys as the node
  has children. Then \<^verbatim>\<open>MakeNode\<close> raises no error, also when keys repeat, that is,
  when a key is equal (Python's \<^verbatim>\<open>==\<close>) to an earlier one. The dictionary it returns
  lists the keys that are equal to no earlier key, in their order; looking up any key of
  the list gives the child of the last key equal to it; it has at most as many entries as
  the node has children, and fewer when a key repeats. The reconstruction loop replaces
  exactly the node's children, the last \<open>arity\<close> items of the agenda, by that dictionary.
\<close>

theorem MakeNode_Dict_duplicate_keys:
  assumes "kind node = Dict" and "node_data node = Some (PyList keys)"
    and "list_all hashable keys" and "length keys = length children"
    and "int (length children) = sint (arity node)"
  shows "\<exists>d. MakeNode node children = Inr (PyDict d)
     \<and> map fst d = first_occurrences [] keys
     \<and> (\<forall>i < length keys. \<forall>j < length keys.
          py_eq (keys ! i) (keys ! j)
          \<and> (\<forall>j'. j < j' \<and> j' < length keys \<longrightarrow> \<not> py_eq (keys ! j) (keys ! j')) \<longrightarrow>
          dict_getitem d (keys ! i) = Some (children ! j))
     \<and> length d \<le> length children
     \<and> ((\<exists>i j. i < j \<and> j < length keys \<and> py_eq (keys ! i) (keys ! j)) \<longrightarrow>
          length d < length children)
     \<and> UnflattenImpl_body self node (st\<lparr>agenda := pre @ children\<rparr>)
          = Inr (st\<lparr>agenda := pre @ [PyDict d]\<rparr>)"
proof -
  from MakeNode_dict_result [OF assms(4) assms(3), of "[]"] obtain d where
    r: "MakeNode_dict keys children [] = Inr (PyDict d)"
    and hd: "list_all hashable (map fst d)"
    and o: "map fst d = first_occurrences [] keys"
    and m: "map_of (map (\<lambda>(k', v'). (key_form k', v')) d)
         = map_of (rev (zip (map key_form keys) children))"
    by auto
  from assms r have mk: "MakeNode node children = Inr (PyDict d)"
    by (simp add: MakeNode_def)
  have hk: "hashable (keys ! n)" if "n < length keys" for n
    using assms(3) that by (simp add: list_all_length)
  have g: "\<forall>i < length keys. \<forall>j < length keys.
          py_eq (keys ! i) (keys ! j)
          \<and> (\<forall>j'. j < j' \<and> j' < length keys \<longrightarrow> \<not> py_eq (keys ! j) (keys ! j')) \<longrightarrow>
          dict_getitem d (keys ! i) = Some (children ! j)"
  proof (intro allI impI)
    fix i j
    assume i: "i < length keys" and j: "j < length keys"
      and e: "py_eq (keys ! i) (keys ! j)
          \<and> (\<forall>j'. j < j' \<and> j' < length keys \<longrightarrow> \<not> py_eq (keys ! j) (keys ! j'))"
    from e i j have ij: "key_form (keys ! i) = key_form (keys ! j)"
      by (simp add: py_eq_key_form hk)
    have l: "\<forall>j'. j < j' \<and> j' < length (map key_form keys) \<longrightarrow>
        map key_form keys ! j' \<noteq> map key_form keys ! j"
    proof (intro allI impI)
      fix j' assume a: "j < j' \<and> j' < length (map key_form keys)"
      with e have "\<not> py_eq (keys ! j) (keys ! j')" by simp
      with a j have "key_form (keys ! j) \<noteq> key_form (keys ! j')"
        by (simp add: py_eq_key_form hk)
      with a j show "map key_form keys ! j' \<noteq> map key_form keys ! j" by auto
    qed
    have "dict_getitem d (keys ! i)
        = map_of (rev (zip (map key_form keys) children)) (key_form (keys ! i))"
      using hd hk [OF i] by (simp add: map_of_dict_getitem m)
    also have "key_form (keys ! i) = map key_form keys ! j"
      using ij j by simp
    also have "map_of (rev (zip (map key_form keys) children)) (map key_form keys ! j)
        = Some (children ! j)"
      using assms(4) j l by (intro map_of_last_occurrence) simp_all
    finally show "dict_getitem d (keys ! i) = Some (children ! j)" .
  qed
  have "length d = length (map fst d)" by simp
  also have "\<dots> = length (first_occurrences [] keys)" by (simp only: o)
  finally have ld: "length d = length (first_occurrences [] keys)" .
  from ld length_first_occurrences [of "[]" keys] assms(4)
  have le: "length d \<le> length children" by simp
  have dup: "(\<exists>i j. i < j \<and> j < length keys \<and> py_eq (keys ! i) (keys ! j)) \<longrightarrow>
      length d < length children"
  proof
    assume "\<exists>i j. i < j \<and> j < length keys \<and> py_eq (keys ! i) (keys ! j)"
    then obtain i j where "i < j" "j < length keys" "py_eq (keys ! i) (keys ! j)" by blast
    then have "length (first_occurrences [] keys) < length keys"
      by (rule first_occurrences_repeated)
    with ld assms(4) show "length d < length children" by simp
  qed
  have "build_node node (st\<lparr>agenda := pre @ children\<rparr>) = Inr (st\<lparr>agenda := pre @ [PyDict d]\<rparr>)"
    by (simp add: build_node_append [OF assms(5)] mk)
  moreover have "\<not> int (length (agenda (st\<lparr>agenda := pre @ children\<rparr>))) < sint (arity node)"
    using assms(5) by simp
  ultimately have "UnflattenImpl_body self node (st\<lparr>agenda := pre @ children\<rparr>)
          = Inr (st\<lparr>agenda := pre @ [PyDict d]\<rparr>)"
    using assms(1) by (simp add: UnflattenImpl_body_def)
  with mk o g le dup show ?thesis by blast
qed

theorem MakeNode_Dict_duplicate_keys_witness:
  "kind dup_dict_node = Dict
   \<and> node_data dup_dict_node
       = Some (PyList [PyTuple [PyInt 1], PyInstance Box [PyInt 1], PyStr ''b''])
   \<and> list_all hashable [PyTuple [PyInt 1], PyInstance Box [PyInt 1], PyStr ''b'']
   \<and> py_eq (PyTuple [PyInt 1]) (PyInstance Box [PyInt 1])
   \<and> sint (arity dup_dict_node) = 3
   \<and> MakeNode dup_dict_node [PyInt 10, PyInt 20, PyInt 30]
       = Inr (PyDict [(PyTuple [PyInt 1], PyInt 20), (PyStr ''b'', PyInt 30)])
   \<and> UnflattenImpl_body \<lparr>traversal = []\<rparr> dup_dict_node
        \<lparr>agenda = [PyInt 0, PyInt 10, PyInt 20, PyInt 30], it = [], leaf_count = 4\<rparr>
     = Inr \<lparr>agenda = [PyInt 0, PyDict [(PyTuple [PyInt 1], PyInt 20), (PyStr ''b'', PyInt 30)]],
            it = [], leaf_count = 4\<rparr>"
proof -
  have h1: "kind dup_dict_node = Dict"
    and h2: "node_data dup_dict_node
       = Some (PyList [PyTuple [PyInt 1], PyInstance Box [PyInt 1], PyStr ''b''])"
    and h3: "list_all hashable [PyTuple [PyInt 1], PyInstance Box [PyInt 1], PyStr ''b'']"
    and h4: "length [PyTuple [PyInt 1], PyInstance Box [PyInt 1], PyStr ''b'']
       = length [PyInt 10, PyInt 20, PyInt 30]"
    and h5: "int (length [PyInt 10, PyInt 20, PyInt 30]) = sint (arity dup_dict_node)"
    by (simp_all add: dup_dict_node_def)
  from MakeNode_Dict_duplicate_keys [OF h1 h2 h3 h4 h5, of "\<lparr>traversal = []\<rparr>"
      "[PyInt 0]" "\<lparr>agenda = [], it = [], leaf_count = 4\<rparr>"]
  obtain d where
    mk: "MakeNode dup_dict_node [PyInt 10, PyInt 20, PyInt 30] = Inr (PyDict d)"
    and b: "UnflattenImpl_body \<lparr>traversal = []\<rparr> dup_dict_node
        (\<lparr>agenda = [], it = [], leaf_count = 4\<rparr>\<lparr>agenda := [PyInt 0] @ [PyInt 10, PyInt 20, PyInt 30]\<rparr>)
        = Inr (\<lparr>agenda = [], it = [], leaf_count = 4\<rparr>\<lparr>agenda := [PyInt 0] @ [PyDict d]\<rparr>)"
    by blast
  have v: "MakeNode dup_dict_node [PyInt 10, PyInt 20, PyInt 30]
       = Inr (PyDict [(PyTuple [PyInt 1], PyInt 20), (PyStr ''b'', PyInt 30)])"
    by (simp add: MakeNode_def dup_dict_node_def)
  with mk have "d = [(PyTuple [PyInt 1], PyInt 20), (PyStr ''b'', PyInt 30)]" by simp
  with b v h1 h2 h3 h5 show ?thesis by simp
qed

section \<open>Kind tags and arities that are not checked\<close>

lemma body_Invalid:
  "kind node = Invalid k \<Longrightarrow>
   UnflattenImpl_body self node st =
     Inl (if int (length (agenda st)) < sint (arity node) then TooFewElementsNode
          else UnreachableCode)"
  by (simp add: UnflattenImpl_body_def)

lemma ToString_body_Invalid:
  "kind node = Invalid k \<Longrightarrow>
   ToString_body node ag =
     Inl (if int (length ag) < sint (arity node) then TooFewElementsContainer
          else if sint (arity node) < 0 then UndefinedBehaviour
          else UnreachableCode)"
  by (simp add: ToString_body_def ToString_push_def)

lemma loop_fails:
  "node \<in> set nodes \<Longrightarrow> (\<And>st. \<exists>e. UnflattenImpl_body self node st = Inl e) \<Longrightarrow>
   \<exists>e. UnflattenImpl_loop self nodes st = Inl e"
proof (induction nodes arbitrary: st)
  case Nil
  then show ?case by simp
next
  case (Cons n nodes)
  show ?case
  proof (cases "UnflattenImpl_body self n st")
    case (Inl e)
    then show ?thesis by simp
  next
    case (Inr st1)
    with Cons.prems(2) have "n \<noteq> node" by (metis Inl_Inr_False)
    with Cons.prems(1) have "node \<in> set nodes" by simp
    from Cons.IH [OF this Cons.prems(2)] Inr show ?thesis by simp
  qed
qed

lemma ToString_loop_fails:
  "node \<in> set nodes \<Longrightarrow> (\<And>ag. \<exists>e. ToString_body node ag = Inl e) \<Longrightarrow>
   \<exists>e. ToString_loop nodes ag = Inl e"
proof (induction nodes arbitrary: ag)
  case Nil
  then show ?case by simp
next
  case (Cons n nodes)
  show ?case
  proof (cases "ToString_body n ag")
    case (Inl e)
    then show ?thesis by simp
  next
    case (Inr ag1)
    with Cons.prems(2) have "n \<noteq> node" by (metis Inl_Inr_False)
    with Cons.prems(1) have "node \<in> set nodes" by simp
    from Cons.IH [OF this Cons.prems(2)] Inr show ?thesis by simp
  qed
qed

lemma Invalid_never_succeeds:
  assumes "node \<in> set (traversal self)" and "kind node = Invalid k"
  shows "(\<exists>e. UnflattenImpl self leaves = Inl e) \<and> (\<exists>e. ToString self = Inl e)"
proof
  from assms(2) have "\<And>st. \<exists>e. UnflattenImpl_body self node st = Inl e"
    by (simp add: body_Invalid)
  from loop_fails [OF assms(1) this, of "\<lparr>agenda = [], it = leaves, leaf_count = 0\<rparr>"]
  show "\<exists>e. UnflattenImpl self leaves = Inl e"
    by (auto simp: UnflattenImpl_def split: sum.splits)
  from assms(2) have "\<And>ag. \<exists>e. ToString_body node ag = Inl e"
    by (simp add: ToString_body_Invalid)
  from ToString_loop_fails [OF assms(1) this, of "[]"] show "\<exists>e. ToString self = Inl e"
    by (auto simp: ToString_def split: sum.splits)
qed

lemma body_negative_arity:
  assumes "kind node \<in> {Tuple, NamedTuple, List, Dict, Custom}" and "sint (arity node) < 0"
  shows "UnflattenImpl_body self node st = Inl ArityMismatch"
proof -
  from assms(2) have g: "\<not> int (length (agenda st)) < sint (arity node)" by simp
  from assms(2) have "MakeNode node [] = Inl ArityMismatch"
    by (simp add: MakeNode_def)
  with assms(2) have "build_node node st = Inl ArityMismatch"
    by (simp add: build_node_def)
  with assms(1) g show ?thesis
    by (auto simp: UnflattenImpl_body_def)
qed

lemma cast_ssize_t_in_range:
  "- (2 ^ 63) \<le> i \<Longrightarrow> i < 2 ^ 63 \<Longrightarrow> cast_ssize_t (PyInt i) = Inr (word_of_int i)"
  by (simp add: cast_ssize_t_def)

lemma FromPicklableImpl_item_unchecked:
  assumes "- (2 ^ 63) \<le> tag" "tag < 2 ^ 63" "- (2 ^ 63) \<le> a" "a < 2 ^ 63"
    and "- (2 ^ 63) \<le> nl" "nl < 2 ^ 63" "- (2 ^ 63) \<le> nn" "nn < 2 ^ 63"
    and "static_cast_PyTreeKind (word_of_int tag) \<notin> {NamedTuple, Dict, Custom}"
  shows "FromPicklableImpl_item registry
           (PyTuple [PyInt tag, PyInt a, PyNone, PyNone, PyInt nl, PyInt nn])
         = Inr \<lparr>kind = static_cast_PyTreeKind (word_of_int tag), arity = word_of_int a,
                node_data = None, custom = None,
                num_leaves = word_of_int nl, num_nodes = word_of_int nn\<rparr>"
proof -
  from assms(9) have "FromPicklableImpl_node_data (static_cast_PyTreeKind (word_of_int tag)) PyNone
      = Inr None"
    by (cases "static_cast_PyTreeKind (word_of_int tag)")
       (simp_all add: FromPicklableImpl_node_data_def)
  moreover from assms(9)
  have "FromPicklableImpl_custom registry (static_cast_PyTreeKind (word_of_int tag)) PyNone
      = Inr None"
    by (auto simp: FromPicklableImpl_custom_def)
  ultimately show ?thesis
    using assms(1-8)
    by (simp add: FromPicklableImpl_item_def cast_ssize_t_in_range)
qed

lemma static_cast_out_of_range:
  assumes "- (2 ^ 63) \<le> tag" "tag < 2 ^ 63" "tag < 0 \<or> 6 < tag"
  shows "static_cast_PyTreeKind (word_of_int tag) = Invalid (word_of_int tag)"
proof -
  have "sint (word_of_int tag :: ssize_t) = (tag + 2 ^ 63) mod 2 ^ 64 - 2 ^ 63"
    by (simp add: int_word_sint)
  with assms(1,2) have s: "sint (word_of_int tag :: ssize_t) = tag"
    by simp
  have r: "tag = sint w" if "(word_of_int tag :: ssize_t) = w" for w
    using that s by auto
  show ?thesis
    using assms(3) by (auto simp: static_cast_PyTreeKind_def dest!: r)
qed

text \<open>
  C10 (as amended). Deserialization stores the kind tag and the arity of a record as
  they are. A record whose tag is none of the enumerators is accepted when its node data
  and registration fields are none, with any arity that fits; so is a record of a
  \<^verbatim>\<open>Leaf\<close>, \<^verbatim>\<open>None\<close>, \<^verbatim>\<open>Tuple\<close> or \<^verbatim>\<open>List\<close> tag, with any arity. A node
  whose kind is no enumerator stops reconstruction and rendering when they reach it: with
  the unreachable-code error once the arity check has passed (rendering a negative arity
  is undefined before), with the too-few-elements error otherwise; so a descriptor that
  holds such a node is never reconstructed or rendered. A container node of negative
  arity stops reconstruction with the arity-mismatch error. These errors are logic
  errors.
\<close>

theorem unchecked_kind_and_arity:
  "(- (2 ^ 63) \<le> tag \<and> tag < 2 ^ 63 \<and> (tag < 0 \<or> 6 < tag)
      \<and> - (2 ^ 63) \<le> a \<and> a < 2 ^ 63 \<and> - (2 ^ 63) \<le> nl \<and> nl < 2 ^ 63
      \<and> - (2 ^ 63) \<le> nn \<and> nn < 2 ^ 63 \<longrightarrow>
      FromPicklableImpl_item registry
          (PyTuple [PyInt tag, PyInt a, PyNone, PyNone, PyInt nl, PyInt nn])
        = Inr \<lparr>kind = Invalid (word_of_int tag), arity = word_of_int a,
               node_data = None, custom = None,
               num_leaves = word_of_int nl, num_nodes = word_of_int nn\<rparr>)
   \<and> (- (2 ^ 63) \<le> tag \<and> tag < 2 ^ 63
      \<and> static_cast_PyTreeKind (word_of_int tag) \<in> {Leaf, NoneKind, Tuple, List}
      \<and> - (2 ^ 63) \<le> a \<and> a < 2 ^ 63 \<and> - (2 ^ 63) \<le> nl \<and> nl < 2 ^ 63
      \<and> - (2 ^ 63) \<le> nn \<and> nn < 2 ^ 63 \<longrightarrow>
      FromPicklableImpl_item registry
          (PyTuple [PyInt tag, PyInt a, PyNone, PyNone, PyInt nl, PyInt nn])
        = Inr \<lparr>kind = static_cast_PyTreeKind (word_of_int tag), arity = word_of_int a,
               node_data = None, custom = None,
               num_leaves = word_of_int nl, num_nodes = word_of_int nn\<rparr>)
   \<and> (kind node = Invalid k \<longrightarrow>
        UnflattenImpl_body self node st =
          Inl (if int (length (agenda st)) < sint (arity node) then TooFewElementsNode
               else UnreachableCode)
        \<and> ToString_body node ag =
          Inl (if int (length ag) < sint (arity node) then TooFewElementsContainer
               else if sint (arity node) < 0 then UndefinedBehaviour
               else UnreachableCode))
   \<and> (kind node = Invalid k \<and> node \<in> set (traversal spec) \<longrightarrow>
        (\<exists>e. UnflattenImpl spec leaves = Inl e) \<and> (\<exists>e. ToString spec = Inl e))
   \<and> (kind node \<in> {Tuple, NamedTuple, List, Dict, Custom} \<and> sint (arity node) < 0 \<longrightarrow>
        UnflattenImpl_body self node st = Inl ArityMismatch)
   \<and> class_of UnreachableCode = logic_error \<and> class_of ArityMismatch = logic_error
   \<and> class_of TooFewElementsNode = logic_error \<and> class_of TooFewElementsContainer = logic_error"
proof (intro conjI impI)
  assume a: "- (2 ^ 63) \<le> tag \<and> tag < 2 ^ 63 \<and> (tag < 0 \<or> 6 < tag)
      \<and> - (2 ^ 63) \<le> a \<and> a < 2 ^ 63 \<and> - (2 ^ 63) \<le> nl \<and> nl < 2 ^ 63
      \<and> - (2 ^ 63) \<le> nn \<and> nn < 2 ^ 63"
  then have k: "static_cast_PyTreeKind (word_of_int tag) = Invalid (word_of_int tag)"
    by (intro static_cast_out_of_range) simp_all
  with a FromPicklableImpl_item_unchecked [of tag a nl nn registry]
  show "FromPicklableImpl_item registry
          (PyTuple [PyInt tag, PyInt a, PyNone, PyNone, PyInt nl, PyInt nn])
        = Inr \<lparr>kind = Invalid (word_of_int tag), arity = word_of_int a,
               node_data = None, custom = None,
               num_leaves = word_of_int nl, num_nodes = word_of_int nn\<rparr>"
    by simp
next
  assume a: "- (2 ^ 63) \<le> tag \<and> tag < 2 ^ 63
      \<and> static_cast_PyTreeKind (word_of_int tag) \<in> {Leaf, NoneKind, Tuple, List}
      \<and> - (2 ^ 63) \<le> a \<and> a < 2 ^ 63 \<and> - (2 ^ 63) \<le> nl \<and> nl < 2 ^ 63
      \<and> - (2 ^ 63) \<le> nn \<and> nn < 2 ^ 63"
  then have "static_cast_PyTreeKind (word_of_int tag) \<notin> {NamedTuple, Dict, Custom}"
    by auto
  then show "FromPicklableImpl_item registry
          (PyTuple [PyInt tag, PyInt a, PyNone, PyNone, PyInt nl, PyInt nn])
        = Inr \<lparr>kind = static_cast_PyTreeKind (word_of_int tag), arity = word_of_int a,
               node_data = None, custom = None,
               num_leaves = word_of_int nl, num_nodes = word_of_int nn\<rparr>"
    using a by (intro FromPicklableImpl_item_unchecked) simp_all
next
  assume "kind node = Invalid k"
  then show "UnflattenImpl_body self node st =
          Inl (if int (length (agenda st)) < sint (arity node) then TooFewElementsNode
               else UnreachableCode)"
    by (rule body_Invalid)
next
  assume "kind node = Invalid k"
  then show "ToString_body node ag =
          Inl (if int (length ag) < sint (arity node) then TooFewElementsContainer
               else if sint (arity node) < 0 then UndefinedBehaviour
               else UnreachableCode)"
    by (rule ToString_body_Invalid)
next
  assume a: "kind node = Invalid k \<and> node \<in> set (traversal spec)"
  with Invalid_never_succeeds [of node spec k leaves]
  show "\<exists>e. UnflattenImpl spec leaves = Inl e" by simp
  from a Invalid_never_succeeds [of node spec k leaves]
  show "\<exists>e. ToString spec = Inl e" by simp
next
  assume "kind node \<in> {Tuple, NamedTuple, List, Dict, Custom} \<and> sint (arity node) < 0"
  then show "UnflattenImpl_body self node st = Inl ArityMismatch"
    by (simp add: body_negative_arity)
qed simp_all

theorem unchecked_kind_and_arity_witness:
  "FromPicklableImpl Map.empty (PyList [PyTuple [PyInt 99, PyInt 0, PyNone, PyNone, PyInt 0, PyInt 1]])
     = Inr \<lparr>traversal = [\<lparr>kind = Invalid 99, arity = 0, node_data = None, custom = None,
                           num_leaves = 0, num_nodes = 1\<rparr>]\<rparr>
   \<and> UnflattenImpl \<lparr>traversal = [\<lparr>kind = Invalid 99, arity = 0, node_data = None, custom = None,
                           num_leaves = 0, num_nodes = 1\<rparr>]\<rparr> [] = Inl UnreachableCode
   \<and> ToString \<lparr>traversal = [\<lparr>kind = Invalid 99, arity = 0, node_data = None, custom = None,
                           num_leaves = 0, num_nodes = 1\<rparr>]\<rparr> = Inl UnreachableCode
   \<and> FromPicklableImpl Map.empty (PyList [PyTuple [PyInt 2, PyInt (- 1), PyNone, PyNone, PyInt 0, PyInt 1]])
     = Inr \<lparr>traversal = [\<lparr>kind = Tuple, arity = - 1, node_data = None, custom = None,
                           num_leaves = 0, num_nodes = 1\<rparr>]\<rparr>
   \<and> UnflattenImpl \<lparr>traversal = [\<lparr>kind = Tuple, arity = - 1, node_data = None, custom = None,
                           num_leaves = 0, num_nodes = 1\<rparr>]\<rparr> [] = Inl ArityMismatch"
  using unchecked_kind_and_arity [of 99 0 0 1 Map.empty
      "\<lparr>kind = Invalid 99, arity = 0, node_data = None, custom = None, num_leaves = 0, num_nodes = 1\<rparr>"
      99 "\<lparr>traversal = []\<rparr>" "\<lparr>agenda = [], it = [], leaf_count = 0\<rparr>" "[]"
      "\<lparr>traversal = [\<lparr>kind = Invalid 99, arity = 0, node_data = None, custom = None,
                           num_leaves = 0, num_nodes = 1\<rparr>]\<rparr>" "[]"]
  by (simp add: pickle_eval unflatten_eval tostring_eval)

text \<open>
  The claim as first stated fails for an arity that does not fit the kind but is not
  negative: the records of a leaf, a leaf of arity 1 and a tuple of arity 2 are accepted,
  and the descriptor they give is reconstructed and rendered without any error.
\<close>

theorem unchecked_arity_counterexample:
  "FromPicklableImpl Map.empty
      (PyList [PyTuple [PyInt 0, PyInt 0, PyNone, PyNone, PyInt 1, PyInt 1],
               PyTuple [PyInt 0, PyInt 1, PyNone, PyNone, PyInt 1, PyInt 1],
               PyTuple [PyInt 2, PyInt 2, PyNone, PyNone, PyInt 2, PyInt 3]])
     = Inr unchecked_arity_spec
   \<and> UnflattenImpl unchecked_arity_spec [PyInt 1, PyInt 2] = Inr (PyTuple [PyInt 1, PyInt 2])
   \<and> ToString unchecked_arity_spec = Inr ''PyTreeSpec((*, *))''"
  by (simp add: unchecked_arity_spec_def pickle_eval unflatten_eval tostring_eval node_eval)

end
